theory Spec2Isabelle
  imports Main "HOL-Library.Sublist"
begin

text \<open>
  A model of the VS Code extension that keeps a hidden \<open>mouse\<close> terminal and a visible
  \<open>cat\<close> terminal alive and sends commands to them: the persisted state
  (\<open>TerminalStateManager\<close>), the terminal manager with its command log and dispatcher
  (\<open>TerminalManager\<close>), and the lifecycle code of the extension
  (\<open>ensureTerminalsExist\<close>, the health check). Mutable objects and files are fields of
  a state record that every operation takes and returns; an exception is a value \<open>Inl\<close>
  of a sum type. One thread of control is modelled: an operation runs from its call to
  its return with nothing in between, and reads the clock once. Writing to the console
  and to the debug log, the message boxes and the HTTP server have no part in what is
  proved and are left out.
\<close>

section \<open>Values shared by the components\<close>

text \<open>
  Terminal ids travel through the program as JavaScript numbers (fresh ids handed out by
  \<open>getNextTerminalId\<close>) or as strings (keys of the persisted object and of the
  \<open>managedTerminals\<close> map); \<open>null\<close> is \<open>None\<close> of the option type.
  The numbers of the program are integer-valued IEEE 754 doubles and are modelled as
  integers; every integer of absolute value up to \<open>2 ^ 53\<close> is a double.
\<close>

datatype jsid = Num int | Str string

text \<open>
  Adding one to a number (\<open>n++\<close>): the exact sum, rounded to the nearest double, ties to
  the even significand. Up to \<open>2 ^ 53\<close> nothing is rounded; above, a double keeps the 53
  leading bits of the integer, so that \<open>2 ^ 53 + 1\<close> is rounded back to \<open>2 ^ 53\<close> and the
  increment is lost. \<open>bit_length a\<close> is the number of binary digits of \<open>a\<close>, so that
  \<open>2 ^ (bit_length a - 53)\<close> is the distance between neighbouring doubles around \<open>a\<close>.
  (The model stops short of infinity: sums of \<open>2 ^ 1024\<close> and more are rounded like the
  others.)
\<close>

function bit_length :: "int \<Rightarrow> nat" where
  "bit_length a = (if a \<le> 0 then 0 else Suc (bit_length (a div 2)))"
  by pat_completeness auto

termination
  by (relation "measure nat") auto

declare bit_length.simps [simp del]

definition round_double :: "int \<Rightarrow> int" where
  "round_double x =
     (if \<bar>x\<bar> \<le> 2 ^ 53 then x
      else let u = 2 ^ (bit_length \<bar>x\<bar> - 53);
               q = \<bar>x\<bar> div u;
               r = \<bar>x\<bar> mod u;
               rounded = (if 2 * r < u \<or> (2 * r = u \<and> even q) then q * u else (q + 1) * u)
           in if x < 0 then - rounded else rounded)"

definition js_increment :: "int \<Rightarrow> int" where
  "js_increment n = round_double (n + 1)"

text \<open>The truthiness test \<open>!terminalId\<close>: \<open>null\<close>, \<open>0\<close> and the empty string are falsy.\<close>

fun truthy :: "jsid option \<Rightarrow> bool" where
  "truthy None = False"
| "truthy (Some (Num n)) = (n \<noteq> 0)"
| "truthy (Some (Str s)) = (s \<noteq> [])"

text \<open>
  \<open>String(n)\<close> on an integer: its decimal digits, with a minus sign when negative (as
  JavaScript prints every integer of absolute value below \<open>10 ^ 21\<close>).
\<close>

definition digit_char :: "nat \<Rightarrow> char" where
  "digit_char d = ''0123456789'' ! d"

fun string_of_nat :: "nat \<Rightarrow> string" where
  "string_of_nat n =
     (if n < 10 then [digit_char n] else string_of_nat (n div 10) @ [digit_char (n mod 10)])"

declare string_of_nat.simps [simp del]

definition string_of_int :: "int \<Rightarrow> string" where
  "string_of_int i = (if i < 0 then CHR ''-'' # string_of_nat (nat (- i)) else string_of_nat (nat i))"

fun String :: "jsid \<Rightarrow> string" where
  "String (Num n) = string_of_int n"
| "String (Str s) = s"

text \<open>
  A file as the program can observe it: missing, present but not usable (its text is not
  JSON, or the parsed value has not the shape the reading code dereferences, so that the
  code's \<open>try\<close> block throws), or holding a well-formed value.
\<close>

datatype 'a jsonfile = Missing | Garbage | Json 'a

section \<open>TerminalStateManager (the persisted state)\<close>

record terminal_desc =
  d_id :: string
  d_type :: string
  d_createdTime :: string
  d_lastUpdated :: string
  d_lastActivity :: string
  d_name :: string

text \<open>
  The state object. Its \<open>terminals\<close> member is a plain JavaScript object used as a
  dictionary: \<open>terminals\<close> are its own properties, and \<open>terminalsProto\<close> is the descriptor
  that has taken the place of its prototype, if one has (\<open>None\<close>: the prototype is
  \<open>Object.prototype\<close>, as for every object made by \<open>{}\<close> or by \<open>JSON.parse\<close>).
\<close>

record state_data =
  terminals :: "string \<rightharpoonup> terminal_desc"
  terminalsProto :: "terminal_desc option"
  terminalIdCounter :: int
  lastUpdated :: string

text \<open>
  What \<open>terminals[k]\<close> evaluates to: an own property; else a property of the descriptor
  that serves as prototype; else a property of \<open>Object.prototype\<close> (a function, or for
  \<open>__proto__\<close> the prototype object itself); else \<open>undefined\<close>.
\<close>

datatype jsvalue = Undefined | Descriptor terminal_desc | Text string | Builtin

fun value_truthy :: "jsvalue \<Rightarrow> bool" where
  "value_truthy Undefined = False"
| "value_truthy (Descriptor d) = True"
| "value_truthy (Text t) = (t \<noteq> [])"
| "value_truthy Builtin = True"

definition object_prototype_keys :: "string list" where
  "object_prototype_keys =
     [''constructor'', ''__defineGetter__'', ''__defineSetter__'', ''hasOwnProperty'',
      ''__lookupGetter__'', ''__lookupSetter__'', ''isPrototypeOf'', ''propertyIsEnumerable'',
      ''toString'', ''valueOf'', ''__proto__'', ''toLocaleString'']"

definition prototype_get :: "terminal_desc option \<Rightarrow> string \<Rightarrow> jsvalue" where
  "prototype_get p k =
     (case p of
        None \<Rightarrow> (if k \<in> set object_prototype_keys then Builtin else Undefined)
      | Some d \<Rightarrow>
          if k = ''type'' then Text (d_type d)
          else if k = ''createdTime'' then Text (d_createdTime d)
          else if k = ''lastActivity'' then Text (d_lastActivity d)
          else if k = ''name'' then Text (d_name d)
          else if k = ''id'' then Text (d_id d)
          else if k = ''lastUpdated'' then Text (d_lastUpdated d)
          else if k = ''__proto__'' then Descriptor d
          else if k \<in> set object_prototype_keys then Builtin
          else Undefined)"

definition terminals_get :: "state_data \<Rightarrow> string \<Rightarrow> jsvalue" where
  "terminals_get sd k =
     (case terminals sd k of
        Some d \<Rightarrow> Descriptor d
      | None \<Rightarrow> prototype_get (terminalsProto sd) k)"

text \<open>
  The assignment \<open>terminals[k] = d\<close>. It creates or overwrites the own property \<open>k\<close>,
  except for the key \<open>__proto__\<close> on an object without an own property of that name: there
  the setter inherited from \<open>Object.prototype\<close> runs, \<open>d\<close> becomes the prototype and no
  property is stored. (\<open>JSON.parse\<close> does create an own property \<open>__proto__\<close> when the
  file has that key, and the assignment then overwrites it like any other.)
\<close>

definition terminals_set :: "string \<Rightarrow> terminal_desc \<Rightarrow> state_data \<Rightarrow> state_data" where
  "terminals_set k d sd =
     (if k = ''__proto__'' \<and> terminals sd k = None then sd\<lparr>terminalsProto := Some d\<rparr>
      else sd\<lparr>terminals := (terminals sd)(k \<mapsto> d)\<rparr>)"

text \<open>
  The manager object together with the file it persists to. \<open>stateReadable\<close> says whether
  \<open>readFileSync\<close> on the state file succeeds, \<open>stateWritable\<close> whether
  \<open>mkdirSync\<close>/\<open>writeFileSync\<close> do. The current time (\<open>new Date().toISOString()\<close>) is
  an argument \<open>now\<close> of every operation that reads the clock.
\<close>

record store =
  stateData :: state_data
  stateFile :: "state_data jsonfile"
  stateReadable :: bool
  stateWritable :: bool

definition default_state :: "string \<Rightarrow> state_data" where
  "default_state now =
     \<lparr>terminals = Map.empty, terminalsProto = None, terminalIdCounter = 1, lastUpdated = now\<rparr>"

text \<open>
  \<open>saveState\<close>: stamps \<open>lastUpdated\<close> in memory, then writes the whole object; a failed
  write is logged and swallowed, leaving the file as it was. \<open>JSON.stringify\<close> writes the
  own properties only, so the file never holds a prototype.
\<close>

definition saveState :: "string \<Rightarrow> 'a store_scheme \<Rightarrow> 'a store_scheme" where
  "saveState now s =
     (let sd = (stateData s)\<lparr>lastUpdated := now\<rparr>
      in s\<lparr>stateData := sd,
            stateFile := (if stateWritable s then Json (sd\<lparr>terminalsProto := None\<rparr>)
                          else stateFile s)\<rparr>)"

text \<open>
  \<open>loadState\<close>: an existing file is read and parsed, and any exception on the way replaces
  the in-memory state by the default one (without saving it); a missing file makes the
  manager save the state it holds.
\<close>

definition loadState :: "string \<Rightarrow> 'a store_scheme \<Rightarrow> 'a store_scheme" where
  "loadState now s =
     (case stateFile s of
        Missing \<Rightarrow> saveState now s
      | Garbage \<Rightarrow> s\<lparr>stateData := default_state now\<rparr>
      | Json sd \<Rightarrow>
          (if stateReadable s then s\<lparr>stateData := sd\<lparr>terminalsProto := None\<rparr>\<rparr>
           else s\<lparr>stateData := default_state now\<rparr>))"

text \<open>The constructor: the default state, then \<open>loadState\<close>, over the given file system.\<close>

definition new_TerminalStateManager :: "string \<Rightarrow> 'a store_scheme \<Rightarrow> 'a store_scheme" where
  "new_TerminalStateManager now s = loadState now (s\<lparr>stateData := default_state now\<rparr>)"

text \<open>
  \<open>upsertTerminal\<close>: the id as a string is the key; the descriptor is a copy of the one
  given, with \<open>id\<close> and \<open>lastUpdated\<close> overwritten, and is assigned to \<open>terminals[key]\<close>.
\<close>

definition upsertTerminal :: "string \<Rightarrow> jsid \<Rightarrow> terminal_desc \<Rightarrow> 'a store_scheme \<Rightarrow> 'a store_scheme" where
  "upsertTerminal now terminalId terminalInfo s =
     (let k = String terminalId
      in saveState now
           (s\<lparr>stateData :=
                terminals_set k (terminalInfo\<lparr>d_id := k, d_lastUpdated := now\<rparr>) (stateData s)\<rparr>))"

text \<open>\<open>getTerminal\<close>: what \<open>terminals[key]\<close> evaluates to, or \<open>null\<close> when that is falsy.\<close>

definition getTerminal :: "jsid \<Rightarrow> 'a store_scheme \<Rightarrow> jsvalue option" where
  "getTerminal terminalId s =
     (let terminalInfo = terminals_get (stateData s) (String terminalId)
      in if \<not> value_truthy terminalInfo then None else Some terminalInfo)"

text \<open>
  \<open>removeTerminal\<close>: gives up when \<open>terminals[key]\<close> is falsy; otherwise deletes the own
  property of that name (if there is none, \<open>delete\<close> does nothing), saves and returns
  \<open>true\<close>.
\<close>

definition removeTerminal :: "string \<Rightarrow> jsid \<Rightarrow> 'a store_scheme \<Rightarrow> bool \<times> 'a store_scheme" where
  "removeTerminal now terminalId s =
     (let k = String terminalId;
          sd = stateData s
      in if \<not> value_truthy (terminals_get sd k) then (False, s)
         else (True, saveState now (s\<lparr>stateData := sd\<lparr>terminals := (terminals sd)(k := None)\<rparr>\<rparr>)))"

definition getNextTerminalId :: "string \<Rightarrow> 'a store_scheme \<Rightarrow> int \<times> 'a store_scheme" where
  "getNextTerminalId now s =
     (let sd = stateData s;
          nextId = terminalIdCounter sd
      in (nextId, saveState now (s\<lparr>stateData := sd\<lparr>terminalIdCounter := js_increment nextId\<rparr>\<rparr>)))"

text \<open>\<open>clearAllTerminals\<close> puts a new empty object in place of the dictionary.\<close>

definition clearAllTerminals :: "string \<Rightarrow> 'a store_scheme \<Rightarrow> 'a store_scheme" where
  "clearAllTerminals now s =
     saveState now (s\<lparr>stateData := (stateData s)\<lparr>terminals := Map.empty, terminalsProto := None\<rparr>\<rparr>)"

text \<open>
  A run of sequential \<open>getNextTerminalId\<close> calls, one per clock reading of the list,
  collecting the ids returned.
\<close>

fun nextIds :: "string list \<Rightarrow> 'a store_scheme \<Rightarrow> int list \<times> 'a store_scheme" where
  "nextIds [] s = ([], s)"
| "nextIds (now # nows) s =
     (let (i, s1) = getNextTerminalId now s;
          (is, s2) = nextIds nows s1
      in (i # is, s2))"

text \<open>The invariant of the persisted map: every descriptor carries its own key as its id.\<close>

definition ids_match_keys :: "state_data \<Rightarrow> bool" where
  "ids_match_keys sd = (\<forall>k d. terminals sd k = Some d \<longrightarrow> d_id d = k)"

definition store_ids_match_keys :: "'a store_scheme \<Rightarrow> bool" where
  "store_ids_match_keys s =
     (ids_match_keys (stateData s)
      \<and> (case stateFile s of Json sd \<Rightarrow> ids_match_keys sd | _ \<Rightarrow> True))"

section \<open>The host environment (the VS Code API)\<close>

text \<open>
  Terminal handles are opaque references, compared by identity. The environment is what
  the extension can observe of VS Code and what it does to it: the enumeration
  \<open>vscode.window.terminals\<close>, the \<open>name\<close> and \<open>processId\<close> of a handle (reading
  either may throw), whether each call the extension makes succeeds, and a log of the
  calls made. The host appends the terminals it creates to its enumeration, taking the
  handle \<open>nextHandle\<close> for the next one.
\<close>

type_synonym handle = nat

record vscode =
  window_terminals :: "handle list"
  term_name :: "handle \<Rightarrow> string option"
  term_pid_ok :: "handle \<Rightarrow> bool"
  show_ok :: "handle \<Rightarrow> bool"
  sendText_ok :: "handle \<Rightarrow> bool"
  newLocal_ok :: bool
  sendSequence_ok :: bool
  createTerminal_ok :: bool
  nextHandle :: handle
  shown :: "handle list"
  sentText :: "(handle \<times> string) list"
  sentSequences :: "string list"

section \<open>TerminalManager\<close>

record terminal_info =
  terminal :: handle
  ti_type :: string
  ti_createdTime :: string
  ti_lastActivity :: string
  ti_name :: string

record log_entry =
  le_id :: nat
  le_timestamp :: string
  le_terminalId :: string
  le_terminalType :: string
  le_command :: string
  le_outputFile :: "string option"
  le_result :: "string option"
  le_status :: string

text \<open>
  The callbacks \<open>sendCommandToTerminal\<close> schedules with \<open>setTimeout\<close>: after one second
  the screen is cleared, and (when the output was redirected) two seconds later the
  output file is read back into the command log.
\<close>

datatype timer =
  ClearScreen handle bool string string "string option"
| ReadBack string string string

record command_result =
  stdout :: string
  stderr :: string
  exitCode :: int
  outputFile :: "string option"

datatype error =
  MouseTerminalNotFound
| TerminalNotFound string
| CallFailed
| NoActiveTerminal
| CreationFailed string

text \<open>
  The manager extends its state manager by the \<open>managedTerminals\<close> map (a JavaScript
  \<open>Map\<close>: an association list in insertion order, keys unique), the command log file,
  the files under \<open>/tmp\<close> that redirected commands write, the pending timers and the
  environment.
\<close>

record manager = store +
  managedTerminals :: "(string \<times> terminal_info) list"
  commandLog :: "log_entry list jsonfile"
  logReadable :: bool
  logWritable :: bool
  tmpFiles :: "string \<rightharpoonup> string"
  timers :: "timer list"
  vs :: vscode

text \<open>\<open>Map.prototype.set\<close>: an existing key keeps its place, a new one goes last.\<close>

primrec map_set :: "'k \<Rightarrow> 'v \<Rightarrow> ('k \<times> 'v) list \<Rightarrow> ('k \<times> 'v) list" where
  "map_set k v [] = [(k, v)]"
| "map_set k v (p # ps) = (if fst p = k then (k, v) # ps else p # map_set k v ps)"

text \<open>\<open>toUpperCase\<close>, on the ASCII letters.\<close>

definition upper_char :: "char \<Rightarrow> char" where
  "upper_char c =
     (case map_of (zip ''abcdefghijklmnopqrstuvwxyz'' ''ABCDEFGHIJKLMNOPQRSTUVWXYZ'') c of
        Some u \<Rightarrow> u | None \<Rightarrow> c)"

definition toUpperCase :: "string \<Rightarrow> string" where
  "toUpperCase s = map upper_char s"

text \<open>\<open>String.prototype.includes\<close>.\<close>

fun includes_str :: "string \<Rightarrow> string \<Rightarrow> bool" where
  "includes_str [] t = (t = [])"
| "includes_str (c # cs) t = (prefix t (c # cs) \<or> includes_str cs t)"

subsection \<open>Calls into the environment\<close>

text \<open>Each call is logged when it is made, whether or not it then throws.\<close>

definition vs_show :: "handle \<Rightarrow> 'a manager_scheme \<Rightarrow> bool \<times> 'a manager_scheme" where
  "vs_show h m = (show_ok (vs m) h, m\<lparr>vs := (vs m)\<lparr>shown := shown (vs m) @ [h]\<rparr>\<rparr>)"

definition vs_sendText :: "handle \<Rightarrow> string \<Rightarrow> 'a manager_scheme \<Rightarrow> bool \<times> 'a manager_scheme" where
  "vs_sendText h txt m =
     (sendText_ok (vs m) h, m\<lparr>vs := (vs m)\<lparr>sentText := sentText (vs m) @ [(h, txt)]\<rparr>\<rparr>)"

fun vs_sendTexts :: "handle \<Rightarrow> string list \<Rightarrow> 'a manager_scheme \<Rightarrow> bool \<times> 'a manager_scheme" where
  "vs_sendTexts h [] m = (True, m)"
| "vs_sendTexts h (txt # txts) m =
     (let (ok, m1) = vs_sendText h txt m
      in if ok then vs_sendTexts h txts m1 else (False, m1))"

definition vs_sendSequence :: "string \<Rightarrow> 'a manager_scheme \<Rightarrow> bool \<times> 'a manager_scheme" where
  "vs_sendSequence txt m =
     (sendSequence_ok (vs m), m\<lparr>vs := (vs m)\<lparr>sentSequences := sentSequences (vs m) @ [txt]\<rparr>\<rparr>)"

text \<open>The host creating a terminal: the next handle, appended to the enumeration.\<close>

definition host_new_terminal :: "vscode \<Rightarrow> vscode" where
  "host_new_terminal v =
     v\<lparr>window_terminals := window_terminals v @ [nextHandle v], nextHandle := Suc (nextHandle v)\<rparr>"

subsection \<open>The command log\<close>

definition writeLog :: "log_entry list \<Rightarrow> 'a manager_scheme \<Rightarrow> 'a manager_scheme" where
  "writeLog logData m = (if logWritable m then m\<lparr>commandLog := Json logData\<rparr> else m)"

text \<open>
  Reading the log as both logging functions do: a missing file reads as the empty array;
  a file that cannot be read or parsed throws, and the caller's \<open>catch\<close> gives up.
\<close>

definition readLog :: "'a manager_scheme \<Rightarrow> log_entry list option" where
  "readLog m =
     (case commandLog m of
        Missing \<Rightarrow> Some []
      | Garbage \<Rightarrow> None
      | Json logData \<Rightarrow> (if logReadable m then Some logData else None))"

definition logCommandExecution ::
  "string \<Rightarrow> string \<Rightarrow> string \<Rightarrow> string \<Rightarrow> string option \<Rightarrow> string option \<Rightarrow>
   'a manager_scheme \<Rightarrow> 'a manager_scheme" where
  "logCommandExecution now terminalId terminalType command outFile result m =
     (case readLog m of
        None \<Rightarrow> m
      | Some logData \<Rightarrow>
          writeLog
            (logData @
             [\<lparr>le_id = length logData + 1, le_timestamp = now, le_terminalId = terminalId,
               le_terminalType = terminalType, le_command = command, le_outputFile = outFile,
               le_result = result, le_status = ''executed''\<rparr>])
            m)"

text \<open>The test \<open>!logData[i].result\<close>: \<open>null\<close> and the empty string are falsy.\<close>

definition no_result :: "log_entry \<Rightarrow> bool" where
  "no_result e = (le_result e = None \<or> le_result e = Some [])"

definition entry_matches :: "string \<Rightarrow> string \<Rightarrow> log_entry \<Rightarrow> bool" where
  "entry_matches terminalId command e =
     (le_terminalId e = terminalId \<and> le_command e = command \<and> no_result e)"

text \<open>
  The loop \<open>for (let i = logData.length - 1; i >= 0; i--)\<close>: \<open>update_from logData n\<close>
  is the loop about to look at index \<open>n - 1\<close>.
\<close>

fun update_from :: "string \<Rightarrow> string \<Rightarrow> string \<Rightarrow> log_entry list \<Rightarrow> nat \<Rightarrow> log_entry list" where
  "update_from terminalId command result logData 0 = logData"
| "update_from terminalId command result logData (Suc i) =
     (if entry_matches terminalId command (logData ! i)
      then logData[i := (logData ! i)\<lparr>le_result := Some result\<rparr>]
      else update_from terminalId command result logData i)"

definition update_entries :: "string \<Rightarrow> string \<Rightarrow> string \<Rightarrow> log_entry list \<Rightarrow> log_entry list" where
  "update_entries terminalId command result logData =
     update_from terminalId command result logData (length logData)"

definition updateCommandResult ::
  "string \<Rightarrow> string \<Rightarrow> string \<Rightarrow> 'a manager_scheme \<Rightarrow> 'a manager_scheme" where
  "updateCommandResult terminalId command result m =
     (case readLog m of
        None \<Rightarrow> m
      | Some logData \<Rightarrow> writeLog (update_entries terminalId command result logData) m)"

subsection \<open>Sending a command\<close>

text \<open>
  The fixed texts of the returned message (UTF-8 bytes). In English: \<open>Command "\<close>,
  \<open>" has been sent to terminal\<close>, \<open>for execution\<close>, \<open>, the output will be saved to\<close>,
  \<open>. On the remote terminal use 'cat\<close>, \<open>' to see the result.\<close>
\<close>

definition msg_command :: string where
  "msg_command = [CHR 0xE5, CHR 0x91, CHR 0xBD, CHR 0xE4, CHR 0xBB, CHR 0xA4] @ '' '' @ [CHR 0x22]"

definition msg_sent :: string where
  "msg_sent = [CHR 0x22] @ '' '' @ [CHR 0xE5, CHR 0xB7, CHR 0xB2, CHR 0xE5, CHR 0x8F, CHR 0x91,
     CHR 0xE9, CHR 0x80, CHR 0x81, CHR 0xE5, CHR 0x88, CHR 0xB0, CHR 0xE7, CHR 0xBB, CHR 0x88,
     CHR 0xE7, CHR 0xAB, CHR 0xAF] @ '' ''"

definition msg_run :: string where
  "msg_run = '' '' @ [CHR 0xE6, CHR 0x89, CHR 0xA7, CHR 0xE8, CHR 0xA1, CHR 0x8C]"

definition msg_saved :: string where
  "msg_saved = [CHR 0xEF, CHR 0xBC, CHR 0x8C, CHR 0xE8, CHR 0xBE, CHR 0x93, CHR 0xE5, CHR 0x87,
     CHR 0xBA, CHR 0xE5, CHR 0xB0, CHR 0x86, CHR 0xE4, CHR 0xBF, CHR 0x9D, CHR 0xE5, CHR 0xAD,
     CHR 0x98, CHR 0xE5, CHR 0x88, CHR 0xB0] @ '' ''"

definition msg_use :: string where
  "msg_use = [CHR 0xE3, CHR 0x80, CHR 0x82, CHR 0xE8, CHR 0xAF, CHR 0xB7, CHR 0xE5, CHR 0x9C,
     CHR 0xA8, CHR 0xE8, CHR 0xBF, CHR 0x9C, CHR 0xE7, CHR 0xA8, CHR 0x8B, CHR 0xE7, CHR 0xBB,
     CHR 0x88, CHR 0xE7, CHR 0xAB, CHR 0xAF, CHR 0xE4, CHR 0xB8, CHR 0x8A, CHR 0xE4, CHR 0xBD,
     CHR 0xBF, CHR 0xE7, CHR 0x94, CHR 0xA8] @ '' '' @ [CHR 0x27] @ ''cat ''"

definition msg_view :: string where
  "msg_view = [CHR 0x27] @ '' '' @ [CHR 0xE5, CHR 0x91, CHR 0xBD, CHR 0xE4, CHR 0xBB, CHR 0xA4,
     CHR 0xE6, CHR 0x9F, CHR 0xA5, CHR 0xE7, CHR 0x9C, CHR 0x8B, CHR 0xE7, CHR 0xBB, CHR 0x93,
     CHR 0xE6, CHR 0x9E, CHR 0x9C, CHR 0xE3, CHR 0x80, CHR 0x82]"

text \<open>The output file is named after \<open>Date.now()\<close>, the clock in milliseconds.\<close>

definition output_path :: "nat \<Rightarrow> string" where
  "output_path ms = ''/tmp/evil_sshagent_output_'' @ string_of_nat ms @ ''.txt''"

text \<open>The first entry of \<open>managedTerminals\<close> whose type is \<open>mouse\<close>.\<close>

fun find_mouse :: "(string \<times> terminal_info) list \<Rightarrow> string option" where
  "find_mouse [] = None"
| "find_mouse ((k, info) # rest) = (if ti_type info = ''mouse'' then Some k else find_mouse rest)"

definition resolve_target :: "jsid option \<Rightarrow> 'a manager_scheme \<Rightarrow> jsid option" where
  "resolve_target terminalId m =
     (if truthy terminalId then terminalId
      else (case find_mouse (managedTerminals m) of
              Some k \<Rightarrow> Some (Str k)
            | None \<Rightarrow> terminalId))"

text \<open>
  The descriptor the manager hands to \<open>upsertTerminal\<close>: type, creation time, last
  activity and name. The object has no \<open>id\<close> and no \<open>lastUpdated\<close> field;
  \<open>upsertTerminal\<close> sets both.
\<close>

definition desc_of :: "terminal_info \<Rightarrow> terminal_desc" where
  "desc_of info =
     \<lparr>d_id = [], d_type = ti_type info, d_createdTime = ti_createdTime info, d_lastUpdated = [],
      d_lastActivity = ti_lastActivity info, d_name = ti_name info\<rparr>"

text \<open>
  The body of the promise \<open>sendCommandToTerminal\<close> returns; it runs before the call
  returns. An exception of \<open>show\<close> or \<open>sendText\<close> rejects the promise.
\<close>

definition send_body ::
  "string \<Rightarrow> nat \<Rightarrow> string \<Rightarrow> terminal_info \<Rightarrow> string \<Rightarrow> bool \<Rightarrow> bool \<Rightarrow>
   'a manager_scheme \<Rightarrow> (error + command_result) \<times> 'a manager_scheme" where
  "send_body now ms terminalId info command clearAfterExecution redirectOutput m =
     (let (shown_ok, m1) =
            (if ti_type info \<noteq> ''mouse'' then vs_show (terminal info) m else (True, m))
      in if \<not> shown_ok then (Inl CallFailed, m1)
         else
           let outFile = (if redirectOutput then Some (output_path ms) else None);
               finalCommand =
                 (if redirectOutput then command @ '' > '' @ output_path ms @ '' 2>&1''
                  else command);
               (sent_ok, m2) = vs_sendText (terminal info) finalCommand m1
           in if \<not> sent_ok then (Inl CallFailed, m2)
              else
                let resultMessage =
                      msg_command @ command @ msg_sent @ terminalId @ msg_run @
                      (if redirectOutput
                       then msg_saved @ output_path ms @ msg_use @ output_path ms @ msg_view
                       else []);
                    result = \<lparr>stdout = resultMessage, stderr = [], exitCode = 0,
                              outputFile = outFile\<rparr>;
                    m3 = logCommandExecution now terminalId (ti_type info) command outFile None m2;
                    m4 = (if clearAfterExecution
                          then m3\<lparr>timers := timers m3 @
                                 [ClearScreen (terminal info) redirectOutput terminalId command
                                    outFile]\<rparr>
                          else m3);
                    info' = info\<lparr>ti_lastActivity := now\<rparr>;
                    m5 = m4\<lparr>managedTerminals := map_set terminalId info' (managedTerminals m4)\<rparr>
                in (Inr result, upsertTerminal now (Str terminalId) (desc_of info') m5))"

definition sendCommandToTerminal ::
  "string \<Rightarrow> nat \<Rightarrow> jsid option \<Rightarrow> string \<Rightarrow> bool \<Rightarrow> bool \<Rightarrow>
   'a manager_scheme \<Rightarrow> (error + command_result) \<times> 'a manager_scheme" where
  "sendCommandToTerminal now ms terminalId command clearAfterExecution redirectOutput m =
     (case resolve_target terminalId m of
        None \<Rightarrow> (Inl MouseTerminalNotFound, m)
      | Some target \<Rightarrow>
          if \<not> truthy (Some target) then (Inl MouseTerminalNotFound, m)
          else
            (case map_of (managedTerminals m) (String target) of
               None \<Rightarrow> (Inl (TerminalNotFound (String target)), m)
             | Some info \<Rightarrow>
                 send_body now ms (String target) info command clearAfterExecution
                   redirectOutput m))"

text \<open>
  The timers firing. Clearing the screen sends \<open>clear\<close>; if that throws, the read-back is
  never scheduled. The read-back copies the output file, when it exists, into the log.
\<close>

fun fire :: "timer \<Rightarrow> 'a manager_scheme \<Rightarrow> 'a manager_scheme" where
  "fire (ClearScreen h redirectOutput terminalId command outFile) m =
     (let (ok, m1) = vs_sendText h ''clear'' m
      in case outFile of
           Some f \<Rightarrow>
             (if ok \<and> redirectOutput then m1\<lparr>timers := timers m1 @ [ReadBack terminalId command f]\<rparr>
              else m1)
         | None \<Rightarrow> m1)"
| "fire (ReadBack terminalId command f) m =
     (case tmpFiles m f of
        None \<Rightarrow> m
      | Some output \<Rightarrow> updateCommandResult terminalId command output m)"

definition result_message :: "string \<Rightarrow> string \<Rightarrow> string option \<Rightarrow> string" where
  "result_message command terminalId outFile =
     msg_command @ command @ msg_sent @ terminalId @ msg_run @
     (case outFile of
        None \<Rightarrow> []
      | Some f \<Rightarrow> msg_saved @ f @ msg_use @ f @ msg_view)"

text \<open>
  A result written as a function of the command, the resolved id, the redirection flag
  and the clock only; the dispatcher's result is compared with it below.
\<close>

definition synthesized_result :: "string \<Rightarrow> string \<Rightarrow> bool \<Rightarrow> nat \<Rightarrow> command_result" where
  "synthesized_result command terminalId redirectOutput ms =
     (let outFile = (if redirectOutput then Some (output_path ms) else None)
      in \<lparr>stdout = result_message command terminalId outFile, stderr = [], exitCode = 0,
          outputFile = outFile\<rparr>)"

subsection \<open>Creating terminals\<close>

text \<open>
  \<open>createRemoteTerminal\<close>: takes the next id, asks the host for a new terminal with the
  command \<open>workbench.action.terminal.newLocal\<close>, picks the last enumerated terminal,
  shows it unless the type is \<open>mouse\<close>, sends the welcome sequence if asked, and registers
  the terminal in memory and in the persisted state. Any failing call leaves the function
  with an exception; the id taken stays consumed.
\<close>

definition welcome_remote :: "int \<Rightarrow> string \<Rightarrow> string" where
  "welcome_remote terminalId ttype =
     ''echo '' @ [CHR 0x27] @ ''Remote Terminal [ID: '' @ string_of_int terminalId @ '', Type: '' @
     ttype @ ''] Ready'' @ [CHR 0x27, CHR 0x0A]"

definition createRemoteTerminal ::
  "string \<Rightarrow> string \<Rightarrow> bool \<Rightarrow> 'a manager_scheme \<Rightarrow> (error + int) \<times> 'a manager_scheme" where
  "createRemoteTerminal now ttype sendWelcome m0 =
     (let (terminalId, m) = getNextTerminalId now m0
      in if \<not> newLocal_ok (vs m) then (Inl CallFailed, m)
         else
           let m1 = m\<lparr>vs := host_new_terminal (vs m)\<rparr>
           in if window_terminals (vs m1) = [] then (Inl NoActiveTerminal, m1)
              else
                  let activeTerminal = last (window_terminals (vs m1));
                      (shown_ok, m2) =
                        (if ttype = ''mouse'' then (True, m1) else vs_show activeTerminal m1)
                  in if \<not> shown_ok then (Inl CallFailed, m2)
                     else
                       let (welcome_ok, m3) =
                             (if sendWelcome
                              then vs_sendSequence (welcome_remote terminalId ttype) m2
                              else (True, m2))
                       in if \<not> welcome_ok then (Inl CallFailed, m3)
                          else
                            let info = \<lparr>terminal = activeTerminal, ti_type = ttype,
                                        ti_createdTime = now, ti_lastActivity = now,
                                        ti_name = ''REMOTE TERMINAL ('' @ toUpperCase ttype @ '')''\<rparr>;
                                m4 = m3\<lparr>managedTerminals :=
                                         map_set (string_of_int terminalId) info (managedTerminals m3)\<rparr>
                            in (Inr terminalId,
                                upsertTerminal now (Num terminalId) (desc_of info) m4))"

text \<open>
  \<open>createLocalTerminal\<close>: takes the next id, creates a terminal with
  \<open>vscode.window.createTerminal\<close>, shows it, sends three welcome lines if asked, and
  registers it. The welcome lines are fixed texts (UTF-8 bytes).
\<close>

definition welcome_local :: "string list" where
  "welcome_local =
     [''echo '' @ [CHR 0x27] @ ''=== '' @ [CHR 0xE6, CHR 0x9C, CHR 0xAC, CHR 0xE5, CHR 0x9C,
        CHR 0xB0, CHR 0xE7, CHR 0xBB, CHR 0x88, CHR 0xE7, CHR 0xAB, CHR 0xAF] @ '' (CAT) - '' @
        [CHR 0xE5, CHR 0xB0, CHR 0xB1, CHR 0xE7, CHR 0xBB, CHR 0xAA] @ '' ==='' @ [CHR 0x27],
      ''echo '' @ [CHR 0x27, CHR 0xE8, CHR 0xBF, CHR 0x99, CHR 0xE6, CHR 0x98, CHR 0xAF, CHR 0xE4,
        CHR 0xB8, CHR 0x80, CHR 0xE4, CHR 0xB8, CHR 0xAA, CHR 0xE6, CHR 0x99, CHR 0xAE, CHR 0xE9,
        CHR 0x80, CHR 0x9A, CHR 0xE7, CHR 0x9A, CHR 0x84, CHR 0xE6, CHR 0x9C, CHR 0xAC, CHR 0xE5,
        CHR 0x9C, CHR 0xB0, CHR 0xE7, CHR 0xBB, CHR 0x88, CHR 0xE7, CHR 0xAB, CHR 0xAF, CHR 0x27],
      ''echo '' @ [CHR 0x27, CHR 0xE6, CHR 0x89, CHR 0x80, CHR 0xE6, CHR 0x9C, CHR 0x89, CHR 0xE7,
        CHR 0xB3, CHR 0xBB, CHR 0xE7, CHR 0xBB, CHR 0x9F, CHR 0xE6, CHR 0xAD, CHR 0xA3, CHR 0xE5,
        CHR 0xB8, CHR 0xB8, CHR 0xE8, CHR 0xBF, CHR 0x90, CHR 0xE8, CHR 0xA1, CHR 0x8C, CHR 0x27]]"

definition createLocalTerminal ::
  "string \<Rightarrow> string \<Rightarrow> bool \<Rightarrow> 'a manager_scheme \<Rightarrow> (error + int) \<times> 'a manager_scheme" where
  "createLocalTerminal now ttype sendWelcome m0 =
     (let (terminalId, m) = getNextTerminalId now m0
      in if \<not> createTerminal_ok (vs m) then (Inl CallFailed, m)
         else
           let localTerminal = nextHandle (vs m);
               m1 = m\<lparr>vs := host_new_terminal (vs m)\<rparr>;
               (shown_ok, m2) = vs_show localTerminal m1
           in if \<not> shown_ok then (Inl CallFailed, m2)
              else
                let (welcome_ok, m3) =
                      (if sendWelcome then vs_sendTexts localTerminal welcome_local m2
                       else (True, m2))
                in if \<not> welcome_ok then (Inl CallFailed, m3)
                   else
                     let info = \<lparr>terminal = localTerminal, ti_type = ttype,
                                 ti_createdTime = now, ti_lastActivity = now,
                                 ti_name = ''LOCAL TERMINAL ('' @ toUpperCase ttype @ '')''\<rparr>;
                         m4 = m3\<lparr>managedTerminals :=
                                  map_set (string_of_int terminalId) info (managedTerminals m3)\<rparr>
                     in (Inr terminalId, upsertTerminal now (Num terminalId) (desc_of info) m4))"

section \<open>The lifecycle controller (the extension's activation code)\<close>

text \<open>
  The module-level variables of the extension next to its terminal manager \<open>tm\<close>: the
  ids of the two terminals, the initialisation flag, the creation lock, the maintain flag,
  and the mouse id handed to the HTTP server by \<open>setTerminalReferences\<close>.
\<close>

record controller =
  tm :: manager
  mouseTerminalId :: "jsid option"
  catTerminalId :: "jsid option"
  terminalsInitialized :: bool
  terminalCreationInProgress :: bool
  shouldMaintainTerminals :: bool
  mouseTerminalIdRef :: "jsid option"

text \<open>\<open>String(x)\<close> on a variable that may be \<open>null\<close>.\<close>

fun String_opt :: "jsid option \<Rightarrow> string" where
  "String_opt None = ''null''"
| "String_opt (Some i) = String i"

text \<open>
  \<open>isTerminalAliveInVSCode\<close>. The function first logs the names of all enumerated
  terminals; if reading one of them throws, or reading the name of the terminal itself
  does while a warning is being logged, control reaches the outer \<open>catch\<close>, which logs the
  terminal's name once more and lets an exception of that read escape (\<open>None\<close>).
\<close>

definition names_readable :: "vscode \<Rightarrow> bool" where
  "names_readable v = list_all (\<lambda>t. term_name v t \<noteq> None) (window_terminals v)"

definition isTerminalAliveInVSCode :: "vscode \<Rightarrow> handle \<Rightarrow> bool option" where
  "isTerminalAliveInVSCode v h =
     (if \<not> names_readable v \<or> h \<notin> set (window_terminals v)
      then (if term_name v h = None then None else Some False)
      else Some (term_pid_ok v h))"

text \<open>
  \<open>findExistingTerminalInVSCode\<close>: the first enumerated terminal whose name and process
  id can be read and whose name contains the marker of the type.
\<close>

fun find_existing :: "vscode \<Rightarrow> string \<Rightarrow> handle list \<Rightarrow> handle option" where
  "find_existing v ttype [] = None"
| "find_existing v ttype (t # ts) =
     (case term_name v t of
        None \<Rightarrow> find_existing v ttype ts
      | Some name \<Rightarrow>
          if \<not> term_pid_ok v t then find_existing v ttype ts
          else if ttype = ''mouse'' \<and> includes_str name ''MOUSE'' then Some t
          else if ttype = ''cat'' \<and> includes_str name ''CAT'' then Some t
          else find_existing v ttype ts)"

definition findExistingTerminalInVSCode :: "vscode \<Rightarrow> string \<Rightarrow> handle option" where
  "findExistingTerminalInVSCode v ttype = find_existing v ttype (window_terminals v)"

definition tryRecoverExistingTerminal ::
  "string \<Rightarrow> string \<Rightarrow> jsid \<Rightarrow> 'a manager_scheme \<Rightarrow> bool \<times> 'a manager_scheme" where
  "tryRecoverExistingTerminal now ttype terminalId m =
     (case findExistingTerminalInVSCode (vs m) ttype of
        None \<Rightarrow> (False, m)
      | Some existingTerminal \<Rightarrow>
          let info = \<lparr>terminal = existingTerminal, ti_type = ttype, ti_createdTime = now,
                      ti_lastActivity = now,
                      ti_name = toUpperCase ttype @ '' TERMINAL (RECOVERED)''\<rparr>;
              m1 = m\<lparr>managedTerminals := map_set (String terminalId) info (managedTerminals m)\<rparr>
          in (True, upsertTerminal now terminalId (desc_of info) m1))"

text \<open>
  The deep check at the head of \<open>ensureTerminalsExist\<close>: both ids set and registered, both
  handles alive, nothing thrown on the way. (\<open>ensureMouseTerminalHidden\<close>, called when the
  check succeeds, only reads and logs.)
\<close>

definition terminals_alive :: "controller \<Rightarrow> bool" where
  "terminals_alive s =
     (terminalsInitialized s \<and> truthy (mouseTerminalId s) \<and> truthy (catTerminalId s)
      \<and> (case map_of (managedTerminals (tm s)) (String_opt (mouseTerminalId s)) of
            None \<Rightarrow> False
          | Some mouseExists \<Rightarrow>
              (case map_of (managedTerminals (tm s)) (String_opt (catTerminalId s)) of
                 None \<Rightarrow> False
               | Some catExists \<Rightarrow>
                   (case isTerminalAliveInVSCode (vs (tm s)) (terminal mouseExists) of
                      None \<Rightarrow> False
                    | Some mouseAlive \<Rightarrow>
                        (case isTerminalAliveInVSCode (vs (tm s)) (terminal catExists) of
                           None \<Rightarrow> False
                         | Some catAlive \<Rightarrow>
                             names_readable (vs (tm s)) \<and> mouseAlive \<and> catAlive)))))"

text \<open>
  The two halves of the creation pass. A terminal is created when its id is unset; when
  the id is set but not registered, an existing terminal is adopted under that id if one
  matches, and a terminal is created otherwise. An id that is set and registered is left
  alone.
\<close>

definition ensure_mouse :: "string \<Rightarrow> controller \<Rightarrow> (error + unit) \<times> controller" where
  "ensure_mouse now s =
     (let create = (\<lambda>m. case createRemoteTerminal now ''mouse'' True m of
                          (Inl e, m1) \<Rightarrow> (Inl (CreationFailed ''mouse''), s\<lparr>tm := m1\<rparr>)
                        | (Inr i, m1) \<Rightarrow> (Inr (), s\<lparr>tm := m1, mouseTerminalId := Some (Num i)\<rparr>))
      in if \<not> truthy (mouseTerminalId s) then create (tm s)
         else case map_of (managedTerminals (tm s)) (String_opt (mouseTerminalId s)) of
                Some mouseTerminalInfo \<Rightarrow> (Inr (), s)
              | None \<Rightarrow>
                  (case mouseTerminalId s of
                     None \<Rightarrow> (Inr (), s)
                   | Some i \<Rightarrow>
                       let (recovered, m1) = tryRecoverExistingTerminal now ''mouse'' i (tm s)
                       in if recovered then (Inr (), s\<lparr>tm := m1\<rparr>) else create m1))"

definition ensure_cat :: "string \<Rightarrow> controller \<Rightarrow> (error + unit) \<times> controller" where
  "ensure_cat now s =
     (let create = (\<lambda>m. case createLocalTerminal now ''cat'' True m of
                          (Inl e, m1) \<Rightarrow> (Inl (CreationFailed ''cat''), s\<lparr>tm := m1\<rparr>)
                        | (Inr i, m1) \<Rightarrow> (Inr (), s\<lparr>tm := m1, catTerminalId := Some (Num i)\<rparr>))
      in if \<not> truthy (catTerminalId s) then create (tm s)
         else case map_of (managedTerminals (tm s)) (String_opt (catTerminalId s)) of
                Some catTerminalInfo \<Rightarrow> (Inr (), s)
              | None \<Rightarrow>
                  (case catTerminalId s of
                     None \<Rightarrow> (Inr (), s)
                   | Some i \<Rightarrow>
                       let (recovered, m1) = tryRecoverExistingTerminal now ''cat'' i (tm s)
                       in if recovered then (Inr (), s\<lparr>tm := m1\<rparr>) else create m1))"

text \<open>Showing the cat terminal at the end of the pass; a failure is logged and swallowed.\<close>

definition show_cat :: "controller \<Rightarrow> controller" where
  "show_cat s =
     (case map_of (managedTerminals (tm s)) (String_opt (catTerminalId s)) of
        None \<Rightarrow> s
      | Some catTerminalInfo \<Rightarrow> s\<lparr>tm := snd (vs_show (terminal catTerminalInfo) (tm s))\<rparr>)"

definition setTerminalReferences :: "controller \<Rightarrow> controller" where
  "setTerminalReferences s = s\<lparr>mouseTerminalIdRef := mouseTerminalId s\<rparr>"

text \<open>
  The creation pass, under the creation lock, which the \<open>finally\<close> block releases on
  every way out.
\<close>

definition creation_pass ::
  "string \<Rightarrow> controller \<Rightarrow> (error + jsid option \<times> jsid option) \<times> controller" where
  "creation_pass now s =
     (case ensure_mouse now (s\<lparr>terminalCreationInProgress := True\<rparr>) of
        (Inl e, s1) \<Rightarrow> (Inl e, s1\<lparr>terminalCreationInProgress := False\<rparr>)
      | (Inr u, s1) \<Rightarrow>
          (case ensure_cat now s1 of
             (Inl e, s2) \<Rightarrow> (Inl e, s2\<lparr>terminalCreationInProgress := False\<rparr>)
           | (Inr u, s2) \<Rightarrow>
               let s3 = (setTerminalReferences (show_cat s2))\<lparr>terminalsInitialized := True\<rparr>
               in (Inr (mouseTerminalId s3, catTerminalId s3),
                   s3\<lparr>terminalCreationInProgress := False\<rparr>)))"

text \<open>
  A caller that finds the lock taken polls it every 100 ms. In this model of one thread
  of control nobody else runs, so a caller entering with the lock taken polls forever:
  the loop has no value.
\<close>

partial_function (option) wait_for_creation :: "controller \<Rightarrow> controller option" where
  "wait_for_creation s =
     (if terminalCreationInProgress s then wait_for_creation s else Some s)"

declare wait_for_creation.simps [code]

definition ensureTerminalsExist ::
  "string \<Rightarrow> controller \<Rightarrow> ((error + jsid option \<times> jsid option) \<times> controller) option" where
  "ensureTerminalsExist now s =
     (if terminalCreationInProgress s
      then (case wait_for_creation s of
              None \<Rightarrow> None
            | Some s1 \<Rightarrow> Some (Inr (mouseTerminalId s1, catTerminalId s1), s1))
      else if terminals_alive s then Some (Inr (mouseTerminalId s, catTerminalId s), s)
      else Some (creation_pass now s))"

text \<open>
  One tick of the periodic health check. An exception anywhere ends the tick (it is
  logged), keeping what was done before it.
\<close>

definition health_mouse :: "string \<Rightarrow> controller \<Rightarrow> bool \<times> controller" where
  "health_mouse now s =
     (let create = (case createRemoteTerminal now ''mouse'' True (tm s) of
                      (Inl e, m1) \<Rightarrow> (False, s\<lparr>tm := m1\<rparr>)
                    | (Inr i, m1) \<Rightarrow>
                        (True, setTerminalReferences (s\<lparr>tm := m1, mouseTerminalId := Some (Num i)\<rparr>)))
      in if \<not> truthy (mouseTerminalId s) then create
         else case map_of (managedTerminals (tm s)) (String_opt (mouseTerminalId s)) of
                None \<Rightarrow> create
              | Some mouseTerminalInfo \<Rightarrow>
                  (case isTerminalAliveInVSCode (vs (tm s)) (terminal mouseTerminalInfo) of
                     None \<Rightarrow> (False, s)
                   | Some True \<Rightarrow> (True, s)
                   | Some False \<Rightarrow> create))"

definition health_cat :: "string \<Rightarrow> controller \<Rightarrow> bool \<times> controller" where
  "health_cat now s =
     (let create = (case createLocalTerminal now ''cat'' True (tm s) of
                      (Inl e, m1) \<Rightarrow> (False, s\<lparr>tm := m1\<rparr>)
                    | (Inr i, m1) \<Rightarrow> (True, s\<lparr>tm := m1, catTerminalId := Some (Num i)\<rparr>))
      in if \<not> truthy (catTerminalId s) then create
         else case map_of (managedTerminals (tm s)) (String_opt (catTerminalId s)) of
                None \<Rightarrow> create
              | Some catTerminalInfo \<Rightarrow>
                  (case isTerminalAliveInVSCode (vs (tm s)) (terminal catTerminalInfo) of
                     None \<Rightarrow> (False, s)
                   | Some True \<Rightarrow> (True, s)
                   | Some False \<Rightarrow> create))"

definition healthCheckTick :: "string \<Rightarrow> controller \<Rightarrow> controller" where
  "healthCheckTick now s =
     (if \<not> shouldMaintainTerminals s \<or> \<not> terminalsInitialized s then s
      else let (ok, s1) = health_mouse now s
           in if ok then snd (health_cat now s1) else s1)"

subsection \<open>Concrete stores\<close>

text \<open>
  A concrete store: an empty state whose counter stands at 5, over a writable file.
\<close>

definition store5 :: store where
  "store5 = \<lparr>stateData = \<lparr>terminals = Map.empty, terminalsProto = None, terminalIdCounter = 5, lastUpdated = ''t0''\<rparr>,
             stateFile = Missing, stateReadable = True, stateWritable = True\<rparr>"

definition desc_mouse :: terminal_desc where
  "desc_mouse = \<lparr>d_id = ''stale'', d_type = ''mouse'', d_createdTime = ''t0'',
                 d_lastUpdated = ''t0'', d_lastActivity = ''t0'', d_name = ''REMOTE TERMINAL (MOUSE)''\<rparr>"

text \<open>The same store with its counter at \<open>2 ^ 53\<close>.\<close>

definition store_2_53 :: store where
  "store_2_53 = store5\<lparr>stateData := (stateData store5)\<lparr>terminalIdCounter := 2 ^ 53\<rparr>\<rparr>"

text \<open>A store holding two terminals, in memory and in its file.\<close>

definition store_two :: store where
  "store_two =
     \<lparr>stateData = \<lparr>terminals = [''1'' \<mapsto> desc_mouse\<lparr>d_id := ''1''\<rparr>,
                                ''2'' \<mapsto> desc_mouse\<lparr>d_id := ''2'', d_type := ''cat''\<rparr>],
                   terminalsProto = None, terminalIdCounter = 3, lastUpdated = ''t0''\<rparr>,
      stateFile = Json \<lparr>terminals = [''1'' \<mapsto> desc_mouse\<lparr>d_id := ''1''\<rparr>,
                                     ''2'' \<mapsto> desc_mouse\<lparr>d_id := ''2'', d_type := ''cat''\<rparr>],
                        terminalsProto = None, terminalIdCounter = 3, lastUpdated = ''t0''\<rparr>,
      stateReadable = True, stateWritable = True\<rparr>"

subsection \<open>A concrete manager\<close>

text \<open>
  A manager holding a mouse terminal under id 1 and a cat terminal under id 2, over an
  empty command log and an environment in which every call succeeds.
\<close>

definition mgr1 :: manager where
  "mgr1 =
     \<lparr>stateData = \<lparr>terminals = Map.empty, terminalsProto = None, terminalIdCounter = 3, lastUpdated = ''t0''\<rparr>,
      stateFile = Missing, stateReadable = True, stateWritable = True,
      managedTerminals =
        [(''1'', \<lparr>terminal = 0, ti_type = ''mouse'', ti_createdTime = ''t0'',
                  ti_lastActivity = ''t0'', ti_name = ''REMOTE TERMINAL (MOUSE)''\<rparr>),
         (''2'', \<lparr>terminal = 1, ti_type = ''cat'', ti_createdTime = ''t0'',
                  ti_lastActivity = ''t0'', ti_name = ''LOCAL TERMINAL (CAT)''\<rparr>)],
      commandLog = Json [], logReadable = True, logWritable = True,
      tmpFiles = Map.empty, timers = [],
      vs = \<lparr>window_terminals = [0, 1], term_name = (\<lambda>h. Some ''bash''),
             term_pid_ok = (\<lambda>h. True), show_ok = (\<lambda>h. True), sendText_ok = (\<lambda>h. True),
             newLocal_ok = True, sendSequence_ok = True, createTerminal_ok = True,
             nextHandle = 2, shown = [], sentText = [], sentSequences = []\<rparr>\<rparr>"

text \<open>Log entries: one just written by a dispatch, one whose read-back found an empty file.\<close>

definition entry_started :: log_entry where
  "entry_started =
     \<lparr>le_id = 1, le_timestamp = ''t1'', le_terminalId = ''1'', le_terminalType = ''mouse'',
      le_command = ''whoami'', le_outputFile = Some ''/tmp/evil_sshagent_output_1700.txt'',
      le_result = None, le_status = ''executed''\<rparr>"

definition entry_empty :: log_entry where
  "entry_empty =
     \<lparr>le_id = 1, le_timestamp = ''t1'', le_terminalId = ''1'', le_terminalType = ''mouse'',
      le_command = ''true'', le_outputFile = Some ''/tmp/evil_sshagent_output_1500.txt'',
      le_result = Some [], le_status = ''executed''\<rparr>"

text \<open>
  A freshly activated extension: nothing registered, no id known, an environment without
  terminals in which every call succeeds.
\<close>

definition env0 :: vscode where
  "env0 = \<lparr>window_terminals = [], term_name = (\<lambda>h. Some ''bash''),
             term_pid_ok = (\<lambda>h. True), show_ok = (\<lambda>h. True), sendText_ok = (\<lambda>h. True),
             newLocal_ok = True, sendSequence_ok = True, createTerminal_ok = True,
             nextHandle = 0, shown = [], sentText = [], sentSequences = []\<rparr>"

definition mgr0 :: manager where
  "mgr0 =
     \<lparr>stateData = default_state ''t0'',
      stateFile = Missing, stateReadable = True, stateWritable = True,
      managedTerminals = [],
      commandLog = Json [], logReadable = True, logWritable = True,
      tmpFiles = Map.empty, timers = [],
      vs = env0\<rparr>"


text \<open>
  Controller states: one whose registered mouse handle (handle 0) is no longer enumerated
  by the environment; and one after a restart, ids restored from the state file, the
  registry empty, and the only enumerated terminal carrying a name with both markers.
\<close>

definition ctl_dead :: controller where
  "ctl_dead =
     \<lparr>tm = mgr1\<lparr>vs := (vs mgr1)\<lparr>window_terminals := [1]\<rparr>\<rparr>,
      mouseTerminalId = Some (Num 1), catTerminalId = Some (Num 2),
      terminalsInitialized = True, terminalCreationInProgress = False,
      shouldMaintainTerminals = True, mouseTerminalIdRef = Some (Num 1)\<rparr>"

definition ctl_mousecat :: controller where
  "ctl_mousecat =
     \<lparr>tm = mgr0\<lparr>stateData :=
              \<lparr>terminals = [''1'' \<mapsto> desc_mouse\<lparr>d_id := ''1''\<rparr>,
                            ''2'' \<mapsto> desc_mouse\<lparr>d_id := ''2'', d_type := ''cat''\<rparr>],
               terminalsProto = None, terminalIdCounter = 3, lastUpdated = ''t0''\<rparr>,
            vs := env0\<lparr>window_terminals := [0], nextHandle := 1,
                       term_name := (\<lambda>h. Some ''MOUSECAT'')\<rparr>\<rparr>,
      mouseTerminalId = Some (Str ''1''), catTerminalId = Some (Str ''2''),
      terminalsInitialized = False, terminalCreationInProgress = False,
      shouldMaintainTerminals = True, mouseTerminalIdRef = None\<rparr>"

section \<open>Properties of the persisted state\<close>

lemma counter_saveState [simp]:
  "terminalIdCounter (stateData (saveState now s)) = terminalIdCounter (stateData s)"
  by (simp add: saveState_def Let_def)

lemma terminals_saveState [simp]:
  "terminals (stateData (saveState now s)) = terminals (stateData s)"
  by (simp add: saveState_def Let_def)

lemma terminals_set_frame [simp]:
  "terminalIdCounter (terminals_set k d sd) = terminalIdCounter sd"
  "lastUpdated (terminals_set k d sd) = lastUpdated sd"
  by (simp_all add: terminals_set_def)

lemma getNextTerminalId_fst [simp]:
  "fst (getNextTerminalId now s) = terminalIdCounter (stateData s)"
  by (simp add: getNextTerminalId_def Let_def)

lemma getNextTerminalId_counter [simp]:
  "terminalIdCounter (stateData (snd (getNextTerminalId now s)))
     = js_increment (terminalIdCounter (stateData s))"
  by (simp add: getNextTerminalId_def Let_def)

subsection \<open>Adding one to a double\<close>

text \<open>Between \<open>- 2 ^ 53\<close> and \<open>2 ^ 53\<close> the sum is exact.\<close>

lemma round_double_exact: "- (2 ^ 53) \<le> x \<Longrightarrow> x \<le> 2 ^ 53 \<Longrightarrow> round_double x = x"
  by (simp add: round_double_def)

lemma js_increment_exact: "- (2 ^ 53) \<le> n \<Longrightarrow> n < 2 ^ 53 \<Longrightarrow> js_increment n = n + 1"
  unfolding js_increment_def by (rule round_double_exact) simp_all

text \<open>
  At \<open>2 ^ 53\<close> the increment is lost; two doubles further on, the sum is rounded upwards;
  likewise below \<open>- 2 ^ 53\<close>.
\<close>

lemma js_increment_lost: "js_increment (2 ^ 53) = 2 ^ 53"
  by code_simp

lemma js_increment_rounded_up: "js_increment (2 ^ 53 + 2) = 2 ^ 53 + 4"
  by code_simp

lemma js_increment_negative: "js_increment (- (2 ^ 53) - 2) = - (2 ^ 53)"
  by code_simp

lemma js_increment_negative_kept: "js_increment (- (2 ^ 54)) = - (2 ^ 54)"
  by code_simp





subsection \<open>Sequential ids\<close>

lemma nextIds_values:
  "- (2 ^ 53) \<le> terminalIdCounter (stateData s) \<Longrightarrow>
   terminalIdCounter (stateData s) + int (length nows) \<le> 2 ^ 53 \<Longrightarrow>
   fst (nextIds nows s) = map (\<lambda>i. terminalIdCounter (stateData s) + int i) [0..<length nows]"
proof (induction nows arbitrary: s)
  case Nil
  show ?case by simp
next
  case (Cons now nows)
  let ?c = "terminalIdCounter (stateData s)"
  let ?s1 = "snd (getNextTerminalId now s)"
  have c1: "js_increment ?c = ?c + 1"
    using Cons.prems by (simp add: js_increment_exact)
  have "fst (nextIds (now # nows) s) = ?c # fst (nextIds nows ?s1)"
    by (simp add: split_beta Let_def)
  also have "fst (nextIds nows ?s1) = map (\<lambda>i. ?c + 1 + int i) [0..<length nows]"
    using Cons.prems Cons.IH [of ?s1] by (simp add: c1)
  also have "?c # map (\<lambda>i. ?c + 1 + int i) [0..<length nows]
             = map (\<lambda>i. ?c + int i) [0..<length (now # nows)]"
    by (simp add: upt_conv_Cons map_Suc_upt [symmetric] del: upt_Suc)
  finally show ?case .
qed

lemma nextIds_counter:
  "- (2 ^ 53) \<le> terminalIdCounter (stateData s) \<Longrightarrow>
   terminalIdCounter (stateData s) + int (length nows) \<le> 2 ^ 53 \<Longrightarrow>
   terminalIdCounter (stateData (snd (nextIds nows s)))
     = terminalIdCounter (stateData s) + int (length nows)"
proof (induction nows arbitrary: s)
  case Nil
  show ?case by simp
next
  case (Cons now nows)
  let ?c = "terminalIdCounter (stateData s)"
  let ?s1 = "snd (getNextTerminalId now s)"
  have c1: "js_increment ?c = ?c + 1"
    using Cons.prems by (simp add: js_increment_exact)
  have "snd (nextIds (now # nows) s) = snd (nextIds nows ?s1)"
    by (simp add: split_beta Let_def)
  then show ?case using Cons.prems Cons.IH [of ?s1] by (simp add: c1)
qed

lemma shifted_upt_strictly_increasing: "sorted_wrt (<) (map (\<lambda>i. (c::int) + int i) [0..<n])"
  by (simp add: sorted_wrt_map)

lemma shifted_upt_distinct: "distinct (map (\<lambda>i. (c::int) + int i) [0..<n])"
  by (simp add: distinct_map inj_on_def)

text \<open>
  C7 as stated fails at the end of the range in which a double counts: on a store whose
  counter is \<open>2 ^ 53\<close> the increment is lost, the counter stays where it was, and two
  sequential calls return the same id.
\<close>

theorem getNextTerminalId_repeats_at_2_53:
  "fst (nextIds [''t1'', ''t2''] store_2_53) = [2 ^ 53, 2 ^ 53]
   \<and> terminalIdCounter (stateData (snd (getNextTerminalId ''t1'' store_2_53))) = 2 ^ 53"
  using js_increment_lost by (simp add: store_2_53_def store5_def split_beta Let_def)

text \<open>
  C7, amended. On a store whose counter \<open>c\<close> is an integer with \<open>- 2 ^ 53 \<le> c\<close> and
  \<open>c + M \<le> 2 ^ 53\<close>, for \<open>M \<ge> 1\<close>: \<open>getNextTerminalId\<close> returns the current counter value
  and leaves the counter one higher; a run of \<open>M\<close> sequential calls (one per element of
  \<open>nows\<close>) returns the \<open>M\<close> consecutive integers starting at \<open>c\<close>, which are strictly
  increasing and pairwise distinct, and leaves the counter at \<open>c + M\<close>.
\<close>

theorem getNextTerminalId_sequence:
  assumes "nows \<noteq> []"
    and "- (2 ^ 53) \<le> terminalIdCounter (stateData s)"
    and "terminalIdCounter (stateData s) + int (length nows) \<le> 2 ^ 53"
  shows "fst (getNextTerminalId now s) = terminalIdCounter (stateData s)
   \<and> terminalIdCounter (stateData (snd (getNextTerminalId now s))) = terminalIdCounter (stateData s) + 1
   \<and> length (fst (nextIds nows s)) = length nows
   \<and> fst (nextIds nows s) = map (\<lambda>i. terminalIdCounter (stateData s) + int i) [0..<length nows]
   \<and> sorted_wrt (<) (fst (nextIds nows s))
   \<and> distinct (fst (nextIds nows s))
   \<and> terminalIdCounter (stateData (snd (nextIds nows s))) = terminalIdCounter (stateData s) + int (length nows)"
proof -
  note v = nextIds_values [OF assms(2,3)]
  from assms(1) have "0 < length nows" by simp
  with assms(3) have lt: "terminalIdCounter (stateData s) < 2 ^ 53" by linarith
  have one: "terminalIdCounter (stateData (snd (getNextTerminalId now s))) = terminalIdCounter (stateData s) + 1"
    using assms(2) lt by (simp add: js_increment_exact)
  have "sorted_wrt (<) (fst (nextIds nows s))"
    unfolding v by (rule shifted_upt_strictly_increasing)
  moreover have "distinct (fst (nextIds nows s))"
    unfolding v by (rule shifted_upt_distinct)
  moreover have "length (fst (nextIds nows s)) = length nows"
    unfolding v by simp
  ultimately show ?thesis
    using v one nextIds_counter [OF assms(2,3)] by simp
qed

theorem getNextTerminalId_sequence_witness:
  "fst (nextIds [''t1'', ''t2'', ''t3''] store5) = [5, 6, 7]
   \<and> sorted_wrt (<) (fst (nextIds [''t1'', ''t2'', ''t3''] store5))
   \<and> distinct (fst (nextIds [''t1'', ''t2'', ''t3''] store5))
   \<and> terminalIdCounter (stateData (snd (nextIds [''t1'', ''t2'', ''t3''] store5))) = 8"
  using getNextTerminalId_sequence [of "[''t1'', ''t2'', ''t3'']" store5 "''t1''"]
  by (simp add: store5_def upt_conv_Cons)

subsection \<open>The id field of every descriptor is its key\<close>

lemma ids_match_keys_lastUpdated [simp]:
  "ids_match_keys (sd\<lparr>lastUpdated := t\<rparr>) = ids_match_keys sd"
  by (simp add: ids_match_keys_def)

lemma ids_match_keys_terminalsProto [simp]:
  "ids_match_keys (sd\<lparr>terminalsProto := p\<rparr>) = ids_match_keys sd"
  by (simp add: ids_match_keys_def)

lemma ids_match_keys_terminals_set:
  "ids_match_keys sd \<Longrightarrow> d_id d = k \<Longrightarrow> ids_match_keys (terminals_set k d sd)"
  by (auto simp: terminals_set_def ids_match_keys_def)

lemma store_ids_match_keys_saveState:
  assumes "ids_match_keys (stateData s)"
    and "case stateFile s of Json sd \<Rightarrow> ids_match_keys sd | _ \<Rightarrow> True"
  shows "store_ids_match_keys (saveState now s)"
  using assms by (simp add: store_ids_match_keys_def saveState_def Let_def)

lemma store_ids_match_keys_upsert:
  assumes "store_ids_match_keys s"
  shows "store_ids_match_keys (upsertTerminal now terminalId terminalInfo s)"
  unfolding upsertTerminal_def Let_def
  by (rule store_ids_match_keys_saveState)
     (use assms in \<open>simp_all add: store_ids_match_keys_def ids_match_keys_terminals_set\<close>)

lemma store_ids_match_keys_remove:
  assumes "store_ids_match_keys s"
  shows "store_ids_match_keys (snd (removeTerminal now terminalId s))"
proof (cases "value_truthy (terminals_get (stateData s) (String terminalId))")
  case False
  then show ?thesis using assms by (simp add: removeTerminal_def Let_def)
next
  case True
  have "store_ids_match_keys
          (saveState now (s\<lparr>stateData := (stateData s)\<lparr>terminals := (terminals (stateData s))(String terminalId := None)\<rparr>\<rparr>))"
    by (rule store_ids_match_keys_saveState)
       (use assms in \<open>auto simp: store_ids_match_keys_def ids_match_keys_def\<close>)
  with True show ?thesis by (simp add: removeTerminal_def Let_def)
qed

lemma store_ids_match_keys_clear:
  assumes "store_ids_match_keys s"
  shows "store_ids_match_keys (clearAllTerminals now s)"
  unfolding clearAllTerminals_def
  by (rule store_ids_match_keys_saveState)
     (use assms in \<open>auto simp: store_ids_match_keys_def ids_match_keys_def\<close>)

text \<open>
  Keys that the dictionary inherits: \<open>removeTerminal\<close> finds \<open>terminals['toString']\<close>
  truthy on an empty dictionary, deletes nothing, saves and returns \<open>true\<close>.
\<close>

lemma removeTerminal_inherited_key:
  "fst (removeTerminal ''t1'' (Str ''toString'') store5)
   \<and> stateFile (snd (removeTerminal ''t1'' (Str ''toString'') store5))
       = Json ((stateData store5)\<lparr>lastUpdated := ''t1''\<rparr>)
   \<and> \<not> fst (removeTerminal ''t1'' (Str ''7'') store5)
   \<and> stateFile (snd (removeTerminal ''t1'' (Str ''7'') store5)) = Missing"
  by (simp add: removeTerminal_def terminals_get_def prototype_get_def object_prototype_keys_def
      saveState_def store5_def Let_def)

text \<open>
  C10 as stated fails for the id \<open>__proto__\<close>: on a dictionary without an own property of
  that name, \<open>upsertTerminal\<close> stores nothing under the key; the descriptor it built
  becomes the dictionary's prototype, and the file written holds no such terminal.
\<close>

theorem upsert_proto_key_stores_nothing:
  "terminals (stateData (upsertTerminal ''t1'' (Str ''__proto__'') desc_mouse store5)) ''__proto__'' = None
   \<and> terminalsProto (stateData (upsertTerminal ''t1'' (Str ''__proto__'') desc_mouse store5))
       = Some (desc_mouse\<lparr>d_id := ''__proto__'', d_lastUpdated := ''t1''\<rparr>)
   \<and> stateFile (upsertTerminal ''t1'' (Str ''__proto__'') desc_mouse store5)
       = Json ((stateData store5)\<lparr>lastUpdated := ''t1''\<rparr>)"
  by (simp add: upsertTerminal_def terminals_set_def saveState_def store5_def Let_def)

text \<open>
  C10, amended. For every id whose string form is not \<open>__proto__\<close> (or is already a key
  of the map), \<open>upsertTerminal\<close> stores the descriptor under the key \<open>String(terminalId)\<close>,
  with its \<open>id\<close> field overwritten by that key and its \<open>lastUpdated\<close> field stamped with
  the current time. For every id, \<open>upsertTerminal\<close>, \<open>removeTerminal\<close> and
  \<open>clearAllTerminals\<close> preserve, in memory and in the file they write, that every stored
  descriptor's \<open>id\<close> field is its key.
\<close>

theorem mutations_keep_ids_equal_to_keys:
  "((String terminalId \<noteq> ''__proto__'' \<or> terminals (stateData s) ''__proto__'' \<noteq> None) \<longrightarrow>
      terminals (stateData (upsertTerminal now terminalId terminalInfo s)) (String terminalId)
        = Some (terminalInfo\<lparr>d_id := String terminalId, d_lastUpdated := now\<rparr>))
   \<and> (store_ids_match_keys s \<longrightarrow>
        store_ids_match_keys (upsertTerminal now terminalId terminalInfo s)
        \<and> store_ids_match_keys (snd (removeTerminal now terminalId s))
        \<and> store_ids_match_keys (clearAllTerminals now s))"
  using store_ids_match_keys_upsert [of s now terminalId terminalInfo]
    store_ids_match_keys_remove [of s now terminalId]
    store_ids_match_keys_clear [of s now]
  by (auto simp add: upsertTerminal_def terminals_set_def Let_def)

lemma string_of_int_5: "string_of_int 5 = ''5''"
  by (simp add: string_of_int_def string_of_nat.simps digit_char_def)

lemma string_of_int_1: "string_of_int 1 = ''1''"
  by (simp add: string_of_int_def string_of_nat.simps digit_char_def)

lemma store_two_ids_match_keys: "store_ids_match_keys store_two"
  by (simp add: store_two_def store_ids_match_keys_def ids_match_keys_def)

lemma removeTerminal_store_two:
  "fst (removeTerminal ''t1'' (Num 1) store_two)
   \<and> terminals (stateData (snd (removeTerminal ''t1'' (Num 1) store_two))) ''1'' = None
   \<and> terminals (stateData (snd (removeTerminal ''t1'' (Num 1) store_two))) ''2''
        = Some (desc_mouse\<lparr>d_id := ''2'', d_type := ''cat''\<rparr>)"
  by (simp add: removeTerminal_def string_of_int_1 store_two_def terminals_get_def Let_def)

lemma clearAllTerminals_store_two:
  "terminals (stateData (clearAllTerminals ''t1'' store_two)) ''1'' = None
   \<and> terminals (stateData (clearAllTerminals ''t1'' store_two)) ''2'' = None"
  by (simp add: clearAllTerminals_def)

theorem mutations_keep_ids_equal_to_keys_witness:
  "store_ids_match_keys store_two
   \<and> terminals (stateData (upsertTerminal ''t1'' (Num 5) desc_mouse store_two)) ''5''
       = Some (desc_mouse\<lparr>d_id := ''5'', d_lastUpdated := ''t1''\<rparr>)
   \<and> store_ids_match_keys (upsertTerminal ''t1'' (Num 5) desc_mouse store_two)
   \<and> fst (removeTerminal ''t1'' (Num 1) store_two)
   \<and> terminals (stateData (snd (removeTerminal ''t1'' (Num 1) store_two))) ''1'' = None
   \<and> terminals (stateData (snd (removeTerminal ''t1'' (Num 1) store_two))) ''2''
        = Some (desc_mouse\<lparr>d_id := ''2'', d_type := ''cat''\<rparr>)
   \<and> store_ids_match_keys (snd (removeTerminal ''t1'' (Num 1) store_two))
   \<and> terminals (stateData (clearAllTerminals ''t1'' store_two)) ''1'' = None
   \<and> terminals (stateData (clearAllTerminals ''t1'' store_two)) ''2'' = None
   \<and> store_ids_match_keys (clearAllTerminals ''t1'' store_two)"
  using store_two_ids_match_keys removeTerminal_store_two clearAllTerminals_store_two
    mutations_keep_ids_equal_to_keys [of "Num 5" store_two "''t1''" desc_mouse]
    mutations_keep_ids_equal_to_keys [of "Num 1" store_two "''t1''" desc_mouse]
  by (simp add: string_of_int_5)

subsection \<open>Loading\<close>

lemma loadState_unusable:
  "stateFile s = Garbage \<or> (stateFile s \<noteq> Missing \<and> \<not> stateReadable s) \<Longrightarrow>
   loadState now s = s\<lparr>stateData := default_state now\<rparr>"
  by (cases "stateFile s") (auto simp: loadState_def)

text \<open>
  C4 as stated fails: when the state file exists but cannot be parsed, the constructor's
  \<open>loadState\<close> replaces the in-memory state by the default one and leaves the file as it
  is; nothing is written.
\<close>

theorem loadState_garbage_not_persisted:
  "stateFile (new_TerminalStateManager ''t1''
      \<lparr>stateData = default_state ''t0'', stateFile = Garbage,
       stateReadable = True, stateWritable = True\<rparr>) = Garbage"
  by (simp add: new_TerminalStateManager_def loadState_def)

text \<open>
  C4, amended. \<open>loadState\<close> is a total function of the manager and its file: no failure
  reaches the caller. Called by the constructor over a missing file, it keeps the fresh
  default state (no terminals, counter 1) and saves it at once (the file then holds that
  state when the write succeeds, and stays missing otherwise). Over a file that cannot be
  read or parsed, it falls back to the fresh default state in memory only: the file is left
  untouched.
\<close>

theorem loadState_fallback:
  "(stateFile s = Missing \<longrightarrow>
      stateData (new_TerminalStateManager now s) = default_state now
      \<and> stateFile (new_TerminalStateManager now s)
          = (if stateWritable s then Json (default_state now) else Missing))
   \<and> (stateFile s = Garbage \<or> (stateFile s \<noteq> Missing \<and> \<not> stateReadable s) \<longrightarrow>
      stateData (new_TerminalStateManager now s) = default_state now
      \<and> terminals (stateData (new_TerminalStateManager now s)) = Map.empty
      \<and> terminalIdCounter (stateData (new_TerminalStateManager now s)) = 1
      \<and> stateFile (new_TerminalStateManager now s) = stateFile s)"
proof (intro conjI impI)
  assume m: "stateFile s = Missing"
  then show "stateData (new_TerminalStateManager now s) = default_state now"
    by (simp add: new_TerminalStateManager_def loadState_def saveState_def Let_def default_state_def)
  from m show "stateFile (new_TerminalStateManager now s)
          = (if stateWritable s then Json (default_state now) else Missing)"
    by (simp add: new_TerminalStateManager_def loadState_def saveState_def Let_def default_state_def)
next
  assume u: "stateFile s = Garbage \<or> (stateFile s \<noteq> Missing \<and> \<not> stateReadable s)"
  then have eq: "new_TerminalStateManager now s = s\<lparr>stateData := default_state now\<rparr>"
    unfolding new_TerminalStateManager_def
    by (subst loadState_unusable) simp_all
  show "stateData (new_TerminalStateManager now s) = default_state now"
    by (simp add: eq)
  show "terminals (stateData (new_TerminalStateManager now s)) = Map.empty"
    by (simp add: eq default_state_def)
  show "terminalIdCounter (stateData (new_TerminalStateManager now s)) = 1"
    by (simp add: eq default_state_def)
  show "stateFile (new_TerminalStateManager now s) = stateFile s"
    by (simp add: eq)
qed

theorem loadState_fallback_witness:
  "stateData (new_TerminalStateManager ''t1'' store5) = default_state ''t1''
   \<and> stateFile (new_TerminalStateManager ''t1'' store5) = Json (default_state ''t1'')
   \<and> stateData (new_TerminalStateManager ''t1'' (store5\<lparr>stateFile := Garbage\<rparr>)) = default_state ''t1''
   \<and> stateFile (new_TerminalStateManager ''t1'' (store5\<lparr>stateFile := Garbage\<rparr>)) = Garbage"
  using loadState_fallback [of store5 "''t1''"]
    loadState_fallback [of "store5\<lparr>stateFile := Garbage\<rparr>" "''t1''"]
  by (simp add: store5_def)

section \<open>Properties of the command log\<close>

lemma length_update_from [simp]:
  "length (update_from terminalId command result logData n) = length logData"
  by (induction n) simp_all

lemma update_from_none:
  "(\<forall>j<n. \<not> entry_matches terminalId command (logData ! j)) \<Longrightarrow>
   update_from terminalId command result logData n = logData"
  by (induction n) simp_all

lemma update_from_last:
  "i < n \<Longrightarrow> entry_matches terminalId command (logData ! i) \<Longrightarrow>
   (\<forall>j. i < j \<and> j < n \<longrightarrow> \<not> entry_matches terminalId command (logData ! j)) \<Longrightarrow>
   update_from terminalId command result logData n
     = logData[i := (logData ! i)\<lparr>le_result := Some result\<rparr>]"
proof (induction n)
  case 0
  then show ?case by simp
next
  case (Suc n)
  show ?case
  proof (cases "i = n")
    case True
    with Suc.prems show ?thesis by simp
  next
    case False
    with Suc.prems have "i < n" by simp
    moreover from Suc.prems False have "\<not> entry_matches terminalId command (logData ! n)"
      by simp
    ultimately show ?thesis using Suc by simp
  qed
qed

text \<open>
  C6 as stated fails: an entry whose result is the empty string (the read-back of a
  command that printed nothing) is not \<open>null\<close>, yet the test \<open>!logData[i].result\<close> takes
  it for unset and the update overwrites it.
\<close>

theorem update_overwrites_empty_result:
  "le_result entry_empty \<noteq> None
   \<and> update_entries ''1'' ''true'' ''root'' [entry_empty] = [entry_empty\<lparr>le_result := Some ''root''\<rparr>]
   \<and> update_entries ''1'' ''true'' ''root'' [entry_empty] \<noteq> [entry_empty]"
  by (simp add: update_entries_def entry_matches_def no_result_def entry_empty_def)

text \<open>
  C6, amended. \<open>updateCommandResult\<close> sets the result of exactly the last entry that
  matches the terminal id and the command and whose result is unset, where unset means
  \<open>null\<close> or the empty string; every other entry and the number of entries are
  unchanged; if no entry matches, the log is unchanged. The file is rewritten with that
  log whenever it could be read (or was missing) and can be written.
\<close>

theorem update_sets_last_unset_match:
  "length (update_entries terminalId command result logData) = length logData
   \<and> (i < length logData
        \<and> entry_matches terminalId command (logData ! i)
        \<and> (\<forall>j. i < j \<and> j < length logData \<longrightarrow> \<not> entry_matches terminalId command (logData ! j))
        \<longrightarrow> update_entries terminalId command result logData
              = logData[i := (logData ! i)\<lparr>le_result := Some result\<rparr>])
   \<and> ((\<forall>j<length logData. \<not> entry_matches terminalId command (logData ! j))
        \<longrightarrow> update_entries terminalId command result logData = logData)
   \<and> (readLog m = Some logData \<and> logWritable m
        \<longrightarrow> commandLog (updateCommandResult terminalId command result m)
              = Json (update_entries terminalId command result logData))"
  by (auto simp: update_entries_def update_from_none update_from_last
        updateCommandResult_def writeLog_def)

theorem update_sets_last_unset_match_witness:
  "update_entries ''1'' ''whoami'' ''root'' [entry_started, entry_started\<lparr>le_id := 2\<rparr>, entry_empty]
     = [entry_started, entry_started\<lparr>le_id := 2, le_result := Some ''root''\<rparr>, entry_empty]
   \<and> update_entries ''9'' ''whoami'' ''root'' [entry_started, entry_empty] = [entry_started, entry_empty]
   \<and> commandLog (updateCommandResult ''1'' ''whoami'' ''root'' (mgr1\<lparr>commandLog := Json [entry_started]\<rparr>))
       = Json [entry_started\<lparr>le_result := Some ''root''\<rparr>]"
proof -
  let ?l = "[entry_started, entry_started\<lparr>le_id := 2\<rparr>, entry_empty]"
  let ?l2 = "[entry_started, entry_empty]"
  let ?m = "mgr1\<lparr>commandLog := Json [entry_started]\<rparr>"
  have a: "1 < length ?l" "entry_matches ''1'' ''whoami'' (?l ! 1)"
    by (simp_all add: entry_matches_def no_result_def entry_started_def)
  have b: "\<forall>j. 1 < j \<and> j < length ?l \<longrightarrow> \<not> entry_matches ''1'' ''whoami'' (?l ! j)"
  proof (intro allI impI)
    fix j assume "1 < j \<and> j < length ?l"
    then have "j = 2" by simp
    then show "\<not> entry_matches ''1'' ''whoami'' (?l ! j)"
      by (simp add: entry_matches_def entry_empty_def)
  qed
  have c: "\<forall>j<length ?l2. \<not> entry_matches ''9'' ''whoami'' (?l2 ! j)"
    by (simp add: entry_matches_def entry_empty_def entry_started_def less_Suc_eq)
  have d: "readLog ?m = Some [entry_started]" "logWritable ?m"
    by (simp_all add: readLog_def mgr1_def)
  have e: "0 < length [entry_started]" "entry_matches ''1'' ''whoami'' ([entry_started] ! 0)"
    "\<forall>j. 0 < j \<and> j < length [entry_started] \<longrightarrow> \<not> entry_matches ''1'' ''whoami'' ([entry_started] ! j)"
    by (auto simp: entry_matches_def no_result_def entry_started_def)
  have 1: "update_entries ''1'' ''whoami'' ''root'' ?l = ?l[1 := (?l ! 1)\<lparr>le_result := Some ''root''\<rparr>]"
    using update_sets_last_unset_match [of "''1''" "''whoami''" "''root''" ?l 1] a b by blast
  have 2: "update_entries ''9'' ''whoami'' ''root'' ?l2 = ?l2"
    using update_sets_last_unset_match [of "''9''" "''whoami''" "''root''" ?l2] c by blast
  have 3: "commandLog (updateCommandResult ''1'' ''whoami'' ''root'' ?m)
           = Json (update_entries ''1'' ''whoami'' ''root'' [entry_started])"
    using update_sets_last_unset_match [of "''1''" "''whoami''" "''root''" "[entry_started]" _ ?m] d
    by blast
  have 4: "update_entries ''1'' ''whoami'' ''root'' [entry_started]
           = [entry_started][0 := ([entry_started] ! 0)\<lparr>le_result := Some ''root''\<rparr>]"
    using update_sets_last_unset_match [of "''1''" "''whoami''" "''root''" "[entry_started]" 0] e
    by blast
  from 1 2 3 4 show ?thesis by simp
qed

section \<open>Properties of the dispatcher\<close>

lemma map_fst_map_set:
  "map_of l k = Some v \<Longrightarrow> map fst (map_set k v' l) = map fst l"
  by (induction l) (auto split: if_splits)

lemma commandLog_saveState [simp]: "commandLog (saveState now m) = commandLog m"
  by (simp add: saveState_def Let_def)

lemma commandLog_upsertTerminal [simp]:
  "commandLog (upsertTerminal now terminalId d m) = commandLog m"
  by (simp add: upsertTerminal_def Let_def)

lemma send_body_Inr:
  assumes "send_body now ms k info command clr redir m = (Inr r, m')"
  shows "r = synthesized_result command k redir ms"
  using assms
  by (auto simp: send_body_def synthesized_result_def result_message_def Let_def split_beta
        split: if_splits)

lemma send_body_log:
  assumes "send_body now ms k info command clr redir m = (Inr r, m')"
  shows "commandLog m' =
     commandLog (logCommandExecution now k (ti_type info) command (outputFile r) None m)"
  using assms
  by (auto simp: send_body_def Let_def split_beta vs_show_def vs_sendText_def
       logCommandExecution_def readLog_def writeLog_def
       split: if_splits option.splits jsonfile.splits)

lemma sendCommandToTerminal_Inr:
  assumes "sendCommandToTerminal now ms terminalId command clr redir m = (Inr r, m')"
  obtains target info where
    "resolve_target terminalId m = Some target"
    "map_of (managedTerminals m) (String target) = Some info"
    "send_body now ms (String target) info command clr redir m = (Inr r, m')"
  using assms
  by (auto simp: sendCommandToTerminal_def split: option.splits if_splits)

lemma counter_upsertTerminal [simp]:
  "terminalIdCounter (stateData (upsertTerminal now terminalId d m)) = terminalIdCounter (stateData m)"
  by (simp add: upsertTerminal_def Let_def)

lemma vs_saveState [simp]: "vs (saveState now m) = vs m"
  by (simp add: saveState_def Let_def)

lemma vs_upsertTerminal [simp]: "vs (upsertTerminal now terminalId d m) = vs m"
  by (simp add: upsertTerminal_def Let_def)

lemma managedTerminals_saveState [simp]: "managedTerminals (saveState now m) = managedTerminals m"
  by (simp add: saveState_def Let_def)

lemma managedTerminals_upsertTerminal [simp]:
  "managedTerminals (upsertTerminal now terminalId d m) = managedTerminals m"
  by (simp add: upsertTerminal_def Let_def)

lemma logCommandExecution_frame [simp]:
  "vs (logCommandExecution now k ty command f res m) = vs m"
  "managedTerminals (logCommandExecution now k ty command f res m) = managedTerminals m"
  "stateData (logCommandExecution now k ty command f res m) = stateData m"
  by (simp_all add: logCommandExecution_def writeLog_def split: option.splits)

lemma send_body_creates_nothing:
  assumes "map_of (managedTerminals m) k = Some info"
  shows "window_terminals (vs (snd (send_body now ms k info command clr redir m))) = window_terminals (vs m)
     \<and> nextHandle (vs (snd (send_body now ms k info command clr redir m))) = nextHandle (vs m)
     \<and> map fst (managedTerminals (snd (send_body now ms k info command clr redir m))) = map fst (managedTerminals m)
     \<and> terminalIdCounter (stateData (snd (send_body now ms k info command clr redir m))) = terminalIdCounter (stateData m)"
  using assms
  by (simp add: send_body_def Let_def split_beta vs_show_def vs_sendText_def map_fst_map_set)

text \<open>
  C5 as stated fails for an id that is given but not registered: the dispatcher does not
  fall back to the mouse terminal, it fails.
\<close>

theorem unregistered_id_is_not_redirected:
  "sendCommandToTerminal ''t1'' 1700 (Some (Str ''7'')) ''whoami'' True True mgr1
     = (Inl (TerminalNotFound ''7''), mgr1)"
  by (simp add: sendCommandToTerminal_def resolve_target_def mgr1_def)

text \<open>
  C5, amended. A dispatch whose id is \<open>null\<close> (or otherwise falsy) behaves exactly as a
  dispatch to the first registered terminal of type \<open>mouse\<close> (its key being a non-empty
  string, as every key made by \<open>String\<close> of a number is), and fails with
  \<open>MouseTerminalNotFound\<close>, leaving the state as it was, when none is registered. A
  dispatch whose id is given but not registered fails with \<open>TerminalNotFound\<close>, leaving
  the state as it was: there is no fallback to the mouse terminal at this layer. Whatever
  the outcome, the dispatcher creates no terminal: the environment's enumeration and next
  handle, the keys of \<open>managedTerminals\<close> and the id counter are unchanged.
\<close>

theorem dispatch_target_resolution:
  "(\<not> truthy terminalId \<and> find_mouse (managedTerminals m) = Some k \<and> k \<noteq> [] \<longrightarrow>
      sendCommandToTerminal now ms terminalId command clr redir m
        = sendCommandToTerminal now ms (Some (Str k)) command clr redir m)
   \<and> (\<not> truthy terminalId \<and> find_mouse (managedTerminals m) = None \<longrightarrow>
      sendCommandToTerminal now ms terminalId command clr redir m = (Inl MouseTerminalNotFound, m))
   \<and> (terminalId = Some target \<and> truthy terminalId
        \<and> map_of (managedTerminals m) (String target) = None \<longrightarrow>
      sendCommandToTerminal now ms terminalId command clr redir m
        = (Inl (TerminalNotFound (String target)), m))
   \<and> window_terminals (vs (snd (sendCommandToTerminal now ms terminalId command clr redir m)))
        = window_terminals (vs m)
   \<and> nextHandle (vs (snd (sendCommandToTerminal now ms terminalId command clr redir m)))
        = nextHandle (vs m)
   \<and> map fst (managedTerminals (snd (sendCommandToTerminal now ms terminalId command clr redir m)))
        = map fst (managedTerminals m)
   \<and> terminalIdCounter (stateData (snd (sendCommandToTerminal now ms terminalId command clr redir m)))
        = terminalIdCounter (stateData m)"
proof -
  have frame: "window_terminals (vs (snd (sendCommandToTerminal now ms terminalId command clr redir m)))
        = window_terminals (vs m)
   \<and> nextHandle (vs (snd (sendCommandToTerminal now ms terminalId command clr redir m)))
        = nextHandle (vs m)
   \<and> map fst (managedTerminals (snd (sendCommandToTerminal now ms terminalId command clr redir m)))
        = map fst (managedTerminals m)
   \<and> terminalIdCounter (stateData (snd (sendCommandToTerminal now ms terminalId command clr redir m)))
        = terminalIdCounter (stateData m)"
    by (simp add: sendCommandToTerminal_def send_body_creates_nothing split: option.splits)
  have a: "\<not> truthy terminalId \<and> find_mouse (managedTerminals m) = Some k \<and> k \<noteq> [] \<longrightarrow>
      sendCommandToTerminal now ms terminalId command clr redir m
        = sendCommandToTerminal now ms (Some (Str k)) command clr redir m"
    by (simp add: sendCommandToTerminal_def resolve_target_def)
  have b: "\<not> truthy terminalId \<and> find_mouse (managedTerminals m) = None \<longrightarrow>
      sendCommandToTerminal now ms terminalId command clr redir m = (Inl MouseTerminalNotFound, m)"
    by (auto simp: sendCommandToTerminal_def resolve_target_def split: option.splits)
  have c: "terminalId = Some target \<and> truthy terminalId
        \<and> map_of (managedTerminals m) (String target) = None \<longrightarrow>
      sendCommandToTerminal now ms terminalId command clr redir m
        = (Inl (TerminalNotFound (String target)), m)"
    by (auto simp: sendCommandToTerminal_def resolve_target_def)
  from a b c frame show ?thesis by blast
qed

lemma string_of_nat_1700: "string_of_nat 1700 = ''1700''"
  by (simp add: string_of_nat.simps digit_char_def)

lemma dispatch_mgr1_result:
  "fst (sendCommandToTerminal ''t1'' 1700 None ''whoami'' True True mgr1)
     = Inr (synthesized_result ''whoami'' ''1'' True 1700)"
  by (simp add: sendCommandToTerminal_def resolve_target_def mgr1_def send_body_def Let_def
        vs_sendText_def synthesized_result_def result_message_def)

lemma dispatch_mgr1_log:
  "commandLog (snd (sendCommandToTerminal ''t1'' 1700 None ''whoami'' True True mgr1))
     = Json [entry_started]"
  by (simp add: sendCommandToTerminal_def resolve_target_def mgr1_def send_body_def Let_def
        vs_sendText_def logCommandExecution_def readLog_def writeLog_def entry_started_def
        synthesized_result_def output_path_def string_of_nat_1700)

theorem dispatch_target_resolution_witness:
  "sendCommandToTerminal ''t1'' 1700 None ''whoami'' True True mgr1
     = sendCommandToTerminal ''t1'' 1700 (Some (Str ''1'')) ''whoami'' True True mgr1
   \<and> sendCommandToTerminal ''t1'' 1700 None ''whoami'' True True (mgr1\<lparr>managedTerminals := []\<rparr>)
     = (Inl MouseTerminalNotFound, mgr1\<lparr>managedTerminals := []\<rparr>)
   \<and> sendCommandToTerminal ''t1'' 1700 (Some (Num 7)) ''whoami'' True True mgr1
     = (Inl (TerminalNotFound ''7''), mgr1)"
proof -
  have a: "\<not> truthy None" "find_mouse (managedTerminals mgr1) = Some ''1''" "''1'' \<noteq> []"
    by (simp_all add: mgr1_def)
  have b: "find_mouse (managedTerminals (mgr1\<lparr>managedTerminals := []\<rparr>)) = None"
    by simp
  have c: "truthy (Some (Num 7))" "String (Num 7) = ''7''"
    "map_of (managedTerminals mgr1) (String (Num 7)) = None"
    by (simp_all add: mgr1_def string_of_int_def string_of_nat.simps digit_char_def)
  show ?thesis
    using a b c
      dispatch_target_resolution [of None mgr1 "''1''" "''t1''" 1700 "''whoami''" True True]
      dispatch_target_resolution [of None "mgr1\<lparr>managedTerminals := []\<rparr>" _ "''t1''" 1700 "''whoami''" True True]
      dispatch_target_resolution [of "Some (Num 7)" mgr1 _ "''t1''" 1700 "''whoami''" True True "Num 7"]
    by simp
qed

text \<open>
  C3 as stated fails: the entry a dispatch appends has the status \<open>executed\<close>, not
  \<open>started\<close>.
\<close>

theorem dispatch_logs_status_executed:
  "fst (sendCommandToTerminal ''t1'' 1700 None ''whoami'' True True mgr1)
     = Inr (synthesized_result ''whoami'' ''1'' True 1700)
   \<and> commandLog (snd (sendCommandToTerminal ''t1'' 1700 None ''whoami'' True True mgr1))
     = Json [entry_started]
   \<and> le_status entry_started = ''executed''
   \<and> le_status entry_started \<noteq> ''started''"
  using dispatch_mgr1_result dispatch_mgr1_log by (simp add: entry_started_def)

text \<open>
  C3, amended. A dispatch that returns has appended exactly one entry to the command log
  when the log file was missing or could be read as an array and the write succeeded, and
  has left the log as it was otherwise (failures of the log are swallowed). The entry
  appended has the status \<open>executed\<close>, the result \<open>null\<close>, an id one above the number of
  entries before, and carries the command and the output file of the returned result.
\<close>

theorem dispatch_appends_one_log_entry:
  assumes "sendCommandToTerminal now ms terminalId command clr redir m = (Inr r, m')"
  shows "(readLog m = None \<or> \<not> logWritable m \<longrightarrow> commandLog m' = commandLog m)
     \<and> (readLog m = Some logData \<and> logWritable m \<longrightarrow>
          (\<exists>k ty. commandLog m' =
             Json (logData @
               [\<lparr>le_id = length logData + 1, le_timestamp = now, le_terminalId = k,
                 le_terminalType = ty, le_command = command, le_outputFile = outputFile r,
                 le_result = None, le_status = ''executed''\<rparr>])))"
proof -
  from assms obtain target info where
    body: "send_body now ms (String target) info command clr redir m = (Inr r, m')"
    by (rule sendCommandToTerminal_Inr)
  have log: "commandLog m' =
     commandLog (logCommandExecution now (String target) (ti_type info) command (outputFile r) None m)"
    using body by (rule send_body_log)
  show ?thesis
    unfolding log
    by (auto simp: logCommandExecution_def writeLog_def split: option.splits)
qed

theorem dispatch_appends_one_log_entry_witness:
  "\<exists>k ty. commandLog (snd (sendCommandToTerminal ''t1'' 1700 None ''whoami'' True True mgr1)) =
     Json ([] @
       [\<lparr>le_id = length ([] :: log_entry list) + 1, le_timestamp = ''t1'', le_terminalId = k,
         le_terminalType = ty, le_command = ''whoami'',
         le_outputFile = outputFile (synthesized_result ''whoami'' ''1'' True 1700),
         le_result = None, le_status = ''executed''\<rparr>])"
proof -
  let ?res = "sendCommandToTerminal ''t1'' 1700 None ''whoami'' True True mgr1"
  have run: "?res = (Inr (synthesized_result ''whoami'' ''1'' True 1700), snd ?res)"
    using dispatch_mgr1_result by (simp add: prod_eq_iff)
  have pre: "readLog mgr1 = Some [] \<and> logWritable mgr1"
    by (simp add: readLog_def mgr1_def)
  from dispatch_appends_one_log_entry [OF run, of "[]"] pre show ?thesis
    by blast
qed

text \<open>
  The round trip of the command log on the concrete manager: the dispatch leaves one
  timer; once the output file holds \<open>root\<close> and a newline and both timers have fired, the
  entry the dispatch wrote carries that text as its result, and it is still the only one.
\<close>

lemma audit_round_trip:
  "timers (snd (sendCommandToTerminal ''t1'' 1700 None ''whoami'' True True mgr1))
     = [ClearScreen 0 True ''1'' ''whoami'' (Some ''/tmp/evil_sshagent_output_1700.txt'')]
   \<and> commandLog
       (fire (ReadBack ''1'' ''whoami'' ''/tmp/evil_sshagent_output_1700.txt'')
          (fire (ClearScreen 0 True ''1'' ''whoami'' (Some ''/tmp/evil_sshagent_output_1700.txt''))
             ((snd (sendCommandToTerminal ''t1'' 1700 None ''whoami'' True True mgr1))
                \<lparr>tmpFiles := [''/tmp/evil_sshagent_output_1700.txt'' \<mapsto> ''root'' @ [CHR 0x0A]]\<rparr>)))
     = Json [entry_started\<lparr>le_result := Some (''root'' @ [CHR 0x0A])\<rparr>]"
  by code_simp

text \<open>
  C9. A dispatch that returns gives back exit code 0, an empty error text, the output
  file named after the clock when redirection was asked for (and none otherwise), and a
  message built from the command, the resolved terminal id and that file name, which
  contains the file name when redirection was asked for. The result is a function of the
  command, the resolved id, the redirection flag and the clock alone: the same dispatch in
  any other state of the manager, its files and its environment that resolves to the same
  terminal and returns, returns the same result.
\<close>

theorem dispatch_result_is_synthesized:
  assumes "sendCommandToTerminal now ms terminalId command clr redir m = (Inr r, m')"
  shows "(\<exists>target. resolve_target terminalId m = Some target
            \<and> r = synthesized_result command (String target) redir ms
            \<and> stdout r = result_message command (String target) (outputFile r))
     \<and> exitCode r = 0
     \<and> stderr r = []
     \<and> outputFile r = (if redir then Some (output_path ms) else None)
     \<and> (redir \<longrightarrow> (\<exists>pre post. stdout r = pre @ output_path ms @ post))
     \<and> (\<forall>m2 r2 m2'.
            sendCommandToTerminal now ms terminalId command clr redir m2 = (Inr r2, m2')
            \<and> resolve_target terminalId m2 = resolve_target terminalId m
            \<longrightarrow> r2 = r)"
proof -
  from assms obtain target info where
    tgt: "resolve_target terminalId m = Some target" and
    body: "send_body now ms (String target) info command clr redir m = (Inr r, m')"
    by (rule sendCommandToTerminal_Inr)
  have r: "r = synthesized_result command (String target) redir ms"
    using body by (rule send_body_Inr)
  have fields: "exitCode r = 0" "stderr r = []"
    "outputFile r = (if redir then Some (output_path ms) else None)"
    "stdout r = result_message command (String target) (outputFile r)"
    by (simp_all add: r synthesized_result_def Let_def)
  have mention: "redir \<longrightarrow> (\<exists>pre post. stdout r = pre @ output_path ms @ post)"
  proof
    assume redir
    then have "stdout r = (msg_command @ command @ msg_sent @ String target @ msg_run @ msg_saved)
                 @ output_path ms @ (msg_use @ output_path ms @ msg_view)"
      by (simp add: r synthesized_result_def Let_def result_message_def)
    then show "\<exists>pre post. stdout r = pre @ output_path ms @ post" by blast
  qed
  have indep: "\<forall>m2 r2 m2'.
            sendCommandToTerminal now ms terminalId command clr redir m2 = (Inr r2, m2')
            \<and> resolve_target terminalId m2 = resolve_target terminalId m
            \<longrightarrow> r2 = r"
  proof (intro allI impI)
    fix m2 r2 m2'
    assume h: "sendCommandToTerminal now ms terminalId command clr redir m2 = (Inr r2, m2')
            \<and> resolve_target terminalId m2 = resolve_target terminalId m"
    then obtain target2 info2 where
      tgt2: "resolve_target terminalId m2 = Some target2" and
      body2: "send_body now ms (String target2) info2 command clr redir m2 = (Inr r2, m2')"
      by (blast elim: sendCommandToTerminal_Inr)
    from h tgt tgt2 have "target2 = target" by simp
    with send_body_Inr [OF body2] r show "r2 = r" by simp
  qed
  from tgt r fields mention indep show ?thesis by blast
qed

theorem dispatch_result_is_synthesized_witness:
  "exitCode (synthesized_result ''whoami'' ''1'' True 1700) = 0
   \<and> stderr (synthesized_result ''whoami'' ''1'' True 1700) = []
   \<and> outputFile (synthesized_result ''whoami'' ''1'' True 1700) = Some ''/tmp/evil_sshagent_output_1700.txt''
   \<and> (\<exists>pre post. stdout (synthesized_result ''whoami'' ''1'' True 1700)
         = pre @ ''/tmp/evil_sshagent_output_1700.txt'' @ post)
   \<and> fst (sendCommandToTerminal ''t1'' 1700 None ''whoami'' True True mgr1)
       = Inr (synthesized_result ''whoami'' ''1'' True 1700)"
proof -
  let ?res = "sendCommandToTerminal ''t1'' 1700 None ''whoami'' True True mgr1"
  have run: "?res = (Inr (synthesized_result ''whoami'' ''1'' True 1700), snd ?res)"
    using dispatch_mgr1_result by (simp add: prod_eq_iff)
  have p: "output_path 1700 = ''/tmp/evil_sshagent_output_1700.txt''"
    by (simp add: output_path_def string_of_nat_1700)
  let ?r = "synthesized_result ''whoami'' ''1'' True 1700"
  from dispatch_result_is_synthesized [OF run]
  have "exitCode ?r = 0 \<and> stderr ?r = []
        \<and> outputFile ?r = (if True then Some (output_path 1700) else None)
        \<and> (True \<longrightarrow> (\<exists>pre post. stdout ?r = pre @ output_path 1700 @ post))"
    by blast
  then have "exitCode ?r = 0 \<and> stderr ?r = [] \<and> outputFile ?r = Some (output_path 1700)
        \<and> (\<exists>pre post. stdout ?r = pre @ output_path 1700 @ post)"
    by (simp only: if_True simp_thms)
  with dispatch_mgr1_result show ?thesis
    unfolding p by blast
qed

section \<open>Properties of the lifecycle controller\<close>




lemma getNextTerminalId_frame [simp]:
  "vs (snd (getNextTerminalId now m)) = vs m"
  "managedTerminals (snd (getNextTerminalId now m)) = managedTerminals m"
  "terminals (stateData (snd (getNextTerminalId now m))) = terminals (stateData m)"
  by (simp_all add: getNextTerminalId_def Let_def saveState_def)



lemma vs_sendTexts_frame [simp]:
  "shown (vs (snd (vs_sendTexts h txts m))) = shown (vs m)"
  "window_terminals (vs (snd (vs_sendTexts h txts m))) = window_terminals (vs m)"
  "nextHandle (vs (snd (vs_sendTexts h txts m))) = nextHandle (vs m)"
  "managedTerminals (snd (vs_sendTexts h txts m)) = managedTerminals m"
  "stateData (snd (vs_sendTexts h txts m)) = stateData m"
  by (induction txts arbitrary: m; simp add: vs_sendText_def split_beta Let_def)+















lemma show_cat_frame [simp]:
  "mouseTerminalId (show_cat s) = mouseTerminalId s"
  "catTerminalId (show_cat s) = catTerminalId s"
  "terminalsInitialized (show_cat s) = terminalsInitialized s"
  "terminalCreationInProgress (show_cat s) = terminalCreationInProgress s"
  "managedTerminals (tm (show_cat s)) = managedTerminals (tm s)"
  "stateData (tm (show_cat s)) = stateData (tm s)"
  "window_terminals (vs (tm (show_cat s))) = window_terminals (vs (tm s))"
  "nextHandle (vs (tm (show_cat s))) = nextHandle (vs (tm s))"
  by (simp_all add: show_cat_def vs_show_def split: option.splits)







section \<open>Defects of the lifecycle controller\<close>

text \<open>
  In the state \<open>ctl_dead\<close> the mouse terminal is registered with handle 0, and the probe
  of that handle answers false.
\<close>

lemma ctl_dead_probe_fails:
  "map_option terminal (map_of (managedTerminals (tm ctl_dead)) (String_opt (mouseTerminalId ctl_dead)))
     = Some 0
   \<and> isTerminalAliveInVSCode (vs (tm ctl_dead)) 0 = Some False"
  by code_simp

text \<open>
  One tick of the health check over that state creates a new mouse terminal: its id is 3,
  the prior counter value, the counter is 4 afterwards, and the old key stays in the
  registry.
\<close>

lemma healthCheckTick_recreates_dead_primary:
  "mouseTerminalId (healthCheckTick ''t2'' ctl_dead) = Some (Num 3)
   \<and> terminalIdCounter (stateData (tm (healthCheckTick ''t2'' ctl_dead))) = 4
   \<and> map fst (managedTerminals (tm (healthCheckTick ''t2'' ctl_dead))) = [''1'', ''2'', ''3'']
   \<and> window_terminals (vs (tm (healthCheckTick ''t2'' ctl_dead))) = [1, 2]"
  by code_simp

text \<open>
  C2. \<open>ensureTerminalsExist\<close> does not do on that state what the claim says, what its own
  log message announces and what the health check does. Its deep check fails, the probe
  answering false (the code then logs that the terminals need to be created again), but
  the creation pass only looks at whether the id is set and registered: the call returns
  the old ids, the counter stays at 3, the registry keeps its keys and no terminal is
  created. (So it is in every state whose two ids are set and registered, whatever the
  probes answer: lemma \<open>ensure_when_registered\<close>.)
\<close>

theorem ensure_keeps_dead_primary:
  "\<not> terminals_alive ctl_dead
   \<and> map_option fst (ensureTerminalsExist ''t2'' ctl_dead) = Some (Inr (Some (Num 1), Some (Num 2)))
   \<and> map_option (terminalIdCounter \<circ> stateData \<circ> tm \<circ> snd) (ensureTerminalsExist ''t2'' ctl_dead) = Some 3
   \<and> map_option (map fst \<circ> managedTerminals \<circ> tm \<circ> snd) (ensureTerminalsExist ''t2'' ctl_dead)
       = Some [''1'', ''2'']
   \<and> map_option (window_terminals \<circ> vs \<circ> tm \<circ> snd) (ensureTerminalsExist ''t2'' ctl_dead) = Some [1]"
  by code_simp

text \<open>
  C1. The claim states what the code's comments state (the mouse terminal is created
  hidden and \<open>show\<close> is never called on it), and the code breaks it when it adopts
  terminals by name. In the state \<open>ctl_mousecat\<close> (after a restart: ids 1 and 2 restored
  from the state file, the registry empty) the only enumerated terminal has a name
  containing both markers. \<open>ensureTerminalsExist\<close> adopts that one handle as the mouse
  terminal and as the cat terminal, and its show call for the cat terminal goes to the
  handle registered as the mouse terminal.
\<close>

theorem primary_handle_shown_when_adopted_twice:
  "map_option fst (ensureTerminalsExist ''t1'' ctl_mousecat)
     = Some (Inr (Some (Str ''1''), Some (Str ''2'')))
   \<and> map_option (managedTerminals \<circ> tm \<circ> snd) (ensureTerminalsExist ''t1'' ctl_mousecat)
     = Some [(''1'', \<lparr>terminal = 0, ti_type = ''mouse'', ti_createdTime = ''t1'',
                      ti_lastActivity = ''t1'', ti_name = ''MOUSE TERMINAL (RECOVERED)''\<rparr>),
             (''2'', \<lparr>terminal = 0, ti_type = ''cat'', ti_createdTime = ''t1'',
                      ti_lastActivity = ''t1'', ti_name = ''CAT TERMINAL (RECOVERED)''\<rparr>)]
   \<and> map_option (shown \<circ> vs \<circ> tm \<circ> snd) (ensureTerminalsExist ''t1'' ctl_mousecat) = Some [0]"
  by code_simp

end
